theory Spec2Isabelle
  imports Complex_Main
begin

section \<open>JavaScript values and the string built-ins the routes use\<close>

text \<open>
  The server is JavaScript. Strings are modelled as \<^typ>\<open>string\<close>, read as sequences of
  code units below 256 (the Latin-1 range); a code unit above that range (such as the
  bullet U+2022 of one character class below) has no counterpart here. A number is
  \<open>NaN\<close>, an infinity, or a finite value, given by the rational it denotes; the built-ins
  that read numbers from text are parameters. Times are seconds as natural numbers.
\<close>

datatype jsnum = NaN | PosInf | NegInf | Fin rat

datatype jsval =
    JUndefined
  | JNull
  | JBool bool
  | JNum jsnum
  | JStr string
  | JArr "jsval list"
  | JObj "(string \<times> jsval) list"
  | JBuffer string

text \<open>ToBoolean.\<close>

fun num_truthy :: "jsnum \<Rightarrow> bool" where
  "num_truthy NaN = False"
| "num_truthy (Fin r) = (r \<noteq> 0)"
| "num_truthy PosInf = True"
| "num_truthy NegInf = True"

fun truthy :: "jsval \<Rightarrow> bool" where
  "truthy JUndefined = False"
| "truthy JNull = False"
| "truthy (JBool b) = b"
| "truthy (JNum n) = num_truthy n"
| "truthy (JStr s) = (s \<noteq> [])"
| "truthy (JArr xs) = True"
| "truthy (JObj kvs) = True"
| "truthy (JBuffer s) = True"

text \<open>
  \<open>v.k\<close> for a value that is neither \<open>null\<close> nor \<open>undefined\<close>: an own property of an
  object, \<open>undefined\<close> otherwise (the keys read below are never \<open>length\<close> or an index).
\<close>

fun get_prop :: "jsval \<Rightarrow> string \<Rightarrow> jsval" where
  "get_prop (JObj kvs) k = (case map_of kvs k of Some v \<Rightarrow> v | None \<Rightarrow> JUndefined)"
| "get_prop v k = JUndefined"

fun isArray :: "jsval \<Rightarrow> bool" where
  "isArray (JArr xs) = True"
| "isArray v = False"

fun elems :: "jsval \<Rightarrow> jsval list" where
  "elems (JArr xs) = xs"
| "elems v = []"

fun typeof_object :: "jsval \<Rightarrow> bool" where
  "typeof_object JNull = True"
| "typeof_object (JArr xs) = True"
| "typeof_object (JObj kvs) = True"
| "typeof_object (JBuffer s) = True"
| "typeof_object v = False"

text \<open>
  \<open>String(v)\<close> on a value read from JSON. An object with an own (hence non-callable)
  \<open>toString\<close> property makes the conversion throw a TypeError; every other object
  converts to \<open>[object Object]\<close>. An array joins its elements with commas, so it converts
  to \<open>[object Object]\<close> only when it has exactly one element that does.
\<close>

fun toString_throws :: "jsval \<Rightarrow> bool" where
  "toString_throws (JObj kvs) = (map_of kvs ''toString'' \<noteq> None)"
| "toString_throws (JArr xs) = (\<exists>x \<in> set xs. toString_throws x)"
| "toString_throws v = False"

fun toString_is_object_Object :: "jsval \<Rightarrow> bool" where
  "toString_is_object_Object (JObj kvs) = True"
| "toString_is_object_Object (JStr s) = (s = ''[object Object]'')"
| "toString_is_object_Object (JBuffer s) = (s = ''[object Object]'')"
| "toString_is_object_Object (JArr [x]) = toString_is_object_Object x"
| "toString_is_object_Object v = False"

subsection \<open>Code units, \<open>toLowerCase\<close>, \<open>trim\<close>\<close>

definition code_unit :: "char \<Rightarrow> nat" where
  "code_unit c = of_char c"

text \<open>WhiteSpace and LineTerminator below 256: TAB, LF, VT, FF, CR, SP, NBSP.\<close>

definition is_space :: "char \<Rightarrow> bool" where
  "is_space c = ((9 \<le> code_unit c \<and> code_unit c \<le> 13) \<or> code_unit c = 32 \<or> code_unit c = 160)"

definition is_upper :: "char \<Rightarrow> bool" where
  "is_upper c = ((65 \<le> code_unit c \<and> code_unit c \<le> 90) \<or>
                 (192 \<le> code_unit c \<and> code_unit c \<le> 222 \<and> code_unit c \<noteq> 215))"

definition lower_char :: "char \<Rightarrow> char" where
  "lower_char c = (if is_upper c then char_of (code_unit c + 32) else c)"

definition toLowerCase :: "string \<Rightarrow> string" where
  "toLowerCase s = map lower_char s"

definition trim :: "string \<Rightarrow> string" where
  "trim s = rev (dropWhile is_space (rev (dropWhile is_space s)))"

section \<open>The recommendation cache (\<open>ai_recommendations_cache\<close>)\<close>

text \<open>
  \<^verbatim>\<open>prompt_hash VARCHAR(64) UNIQUE NOT NULL, user_prompt TEXT NOT NULL,
  recommendations JSON, created_at TIMESTAMP DEFAULT CURRENT_TIMESTAMP, expires_at TIMESTAMP\<close>.
  The JSON column is held as the JavaScript value the driver hands back for it.
\<close>

record ai_cache_row =
  ai_id :: nat
  prompt_hash :: string
  user_prompt :: string
  recommendations_col :: jsval
  ai_created_at :: nat
  expires_at :: "nat option"

record ai_cache =
  ai_rows :: "ai_cache_row list"
  ai_next_id :: nat

text \<open>
  \<^verbatim>\<open>crypto.createHash('sha256').update(prompt.toLowerCase().trim()).digest('hex')\<close>;
  the digest is the library's and is a parameter.
\<close>

definition promptHash :: "(string \<Rightarrow> string) \<Rightarrow> string \<Rightarrow> string" where
  "promptHash sha256_hex prompt = sha256_hex (trim (toLowerCase prompt))"

text \<open>
  \<^verbatim>\<open>SELECT * FROM ai_recommendations_cache WHERE prompt_hash = ? AND expires_at > NOW()\<close>;
  a NULL \<open>expires_at\<close> compares as unknown and the row is not selected.
\<close>

definition live_at :: "nat \<Rightarrow> ai_cache_row \<Rightarrow> bool" where
  "live_at now r = (case expires_at r of None \<Rightarrow> False | Some e \<Rightarrow> e > now)"

definition select_cached :: "nat \<Rightarrow> string \<Rightarrow> ai_cache \<Rightarrow> ai_cache_row list" where
  "select_cached now h c = filter (\<lambda>r. prompt_hash r = h \<and> live_at now r) (ai_rows c)"

text \<open>
  The defensive decoding of the stored column (lines 38--57 of the route). \<open>JSON.parse\<close>
  is the parameter \<open>parse\<close>, with \<open>None\<close> for a thrown SyntaxError. In
  \<open>try_parse_raw\<close> the result \<open>None\<close> is an exception thrown inside the \<^verbatim>\<open>try\<close>.

  The guard \<^verbatim>\<open>raw && typeof raw === 'object' && raw.toString && raw.toString() === '[object Object]'\<close>,
  with \<open>None\<close> when evaluating it throws: an own \<open>toString\<close> property of a JSON object is
  not callable, and joining an array converts each element.
\<close>

fun coerced_object_guard :: "jsval \<Rightarrow> bool option" where
  "coerced_object_guard (JObj kvs) =
     (case map_of kvs ''toString'' of
        None \<Rightarrow> Some True
      | Some f \<Rightarrow> if truthy f then None else Some False)"
| "coerced_object_guard (JArr xs) =
     (if toString_throws (JArr xs) then None else Some (toString_is_object_Object (JArr xs)))"
| "coerced_object_guard (JBuffer b) = Some (b = ''[object Object]'')"
| "coerced_object_guard v = Some False"

fun try_parse_raw :: "(string \<Rightarrow> jsval option) \<Rightarrow> jsval \<Rightarrow> jsval option" where
  "try_parse_raw parse (JStr s) = parse s"
| "try_parse_raw parse raw =
     (case coerced_object_guard raw of
        None \<Rightarrow> None
      | Some True \<Rightarrow> Some JNull
      | Some False \<Rightarrow>
          (case raw of
             JBuffer b \<Rightarrow> parse b
           | _ \<Rightarrow> Some raw))"

text \<open>The \<^verbatim>\<open>catch\<close> sets \<open>parsed = null\<close> and logs a warning.\<close>

definition parse_raw :: "(string \<Rightarrow> jsval option) \<Rightarrow> jsval \<Rightarrow> jsval" where
  "parse_raw parse raw = (case try_parse_raw parse raw of Some v \<Rightarrow> v | None \<Rightarrow> JNull)"

definition parse_warning_logged :: "(string \<Rightarrow> jsval option) \<Rightarrow> jsval \<Rightarrow> bool" where
  "parse_warning_logged parse raw = (try_parse_raw parse raw = None)"

text \<open>Lines 61--74: normalise to an array of recommendations.\<close>

definition normalize_recommendations :: "jsval \<Rightarrow> jsval \<Rightarrow> jsval list" where
  "normalize_recommendations raw parsed =
    (let recs =
       (if truthy parsed then
          (if isArray parsed then elems parsed
           else if isArray (get_prop parsed ''recommendations'') then elems (get_prop parsed ''recommendations'')
           else if isArray (get_prop parsed ''data'') then elems (get_prop parsed ''data'')
           else [])
        else [])
     in if length recs = 0 then
          (if truthy raw \<and> typeof_object raw \<and> isArray (get_prop raw ''recommendations'')
           then elems (get_prop raw ''recommendations'') else recs)
        else recs)"

text \<open>\<^verbatim>\<open>a || b\<close> and \<^verbatim>\<open>a && b\<close> on values.\<close>

definition js_or :: "jsval \<Rightarrow> jsval \<Rightarrow> jsval" where
  "js_or a b = (if truthy a then a else b)"

definition js_and :: "jsval \<Rightarrow> jsval \<Rightarrow> jsval" where
  "js_and a b = (if truthy a then b else a)"

record cached_response =
  source :: string
  recommendations :: "jsval list"
  originalPrompt :: jsval

definition cached_reply :: "(string \<Rightarrow> jsval option) \<Rightarrow> ai_cache_row \<Rightarrow> cached_response" where
  "cached_reply parse row =
    (let raw = recommendations_col row;
         parsed = parse_raw parse raw
     in \<lparr> source = ''cache'',
          recommendations = normalize_recommendations raw parsed,
          originalPrompt =
            js_or (js_or (JStr (user_prompt row)) (js_and parsed (get_prop parsed ''originalPrompt'')))
                  (JStr []) \<rparr>)"

text \<open>
  \<open>RecommendationCache.get\<close>: lines 27--81 of \<^verbatim>\<open>router.post('/ai')\<close>. \<open>None\<close> is the miss,
  after which the route goes on to call the language model; \<open>Some\<close> is the reply sent
  from the cache, after which the route returns.
\<close>

definition cache_get ::
  "(string \<Rightarrow> jsval option) \<Rightarrow> nat \<Rightarrow> string \<Rightarrow> ai_cache \<Rightarrow> cached_response option" where
  "cache_get parse now h c =
    (case select_cached now h c of
       [] \<Rightarrow> None
     | row # _ \<Rightarrow> Some (cached_reply parse row))"

text \<open>
  \<open>RecommendationCache.put\<close>: lines 104--114. The statement is a plain \<^verbatim>\<open>INSERT\<close>; the
  UNIQUE key on \<open>prompt_hash\<close> rejects a second row for the same hash whether or not the
  first has expired, and the \<^verbatim>\<open>catch\<close> logs the error and goes on.
\<close>

datatype db_error =
    ER_DUP_ENTRY | ER_BAD_NULL | ER_BIND_UNDEFINED | ER_CONNECTION | ER_DATA_TOO_LONG
  | ER_OUT_OF_RANGE

definition insert_ai_row ::
  "nat \<Rightarrow> string \<Rightarrow> string \<Rightarrow> jsval \<Rightarrow> ai_cache \<Rightarrow> db_error + ai_cache" where
  "insert_ai_row now h prompt payload c =
    (if \<exists>r \<in> set (ai_rows c). prompt_hash r = h then Inl ER_DUP_ENTRY
     else Inr \<lparr> ai_rows = ai_rows c @
                  [\<lparr> ai_id = ai_next_id c, prompt_hash = h, user_prompt = prompt,
                     recommendations_col = payload, ai_created_at = now,
                     expires_at = Some (now + 24 * 3600) \<rparr>],
                ai_next_id = Suc (ai_next_id c) \<rparr>)"

text \<open>The cache after the \<^verbatim>\<open>try\<close> block, and the error logged as \<open>Cache error\<close>, if any.\<close>

definition cache_put ::
  "nat \<Rightarrow> string \<Rightarrow> string \<Rightarrow> jsval \<Rightarrow> ai_cache \<Rightarrow> ai_cache \<times> db_error option" where
  "cache_put now h prompt payload c =
    (case insert_ai_row now h prompt payload c of
       Inr c' \<Rightarrow> (c', None)
     | Inl e \<Rightarrow> (c, Some e))"

text \<open>
  The payloads the reader can use are an array, or an object whose \<open>recommendations\<close> or
  \<open>data\<close> field is an array. A stored payload is irrecoverable when neither it nor, for
  a string or a Buffer, what \<open>JSON.parse\<close> makes of it is one of these.
\<close>

definition usable_payload :: "jsval \<Rightarrow> bool" where
  "usable_payload v =
     (isArray v \<or> isArray (get_prop v ''recommendations'') \<or> isArray (get_prop v ''data''))"

definition irrecoverable :: "(string \<Rightarrow> jsval option) \<Rightarrow> jsval \<Rightarrow> bool" where
  "irrecoverable parse raw =
    (case raw of
       JStr s \<Rightarrow> (case parse s of None \<Rightarrow> True | Some v \<Rightarrow> \<not> usable_payload v)
     | JBuffer b \<Rightarrow> (case parse b of None \<Rightarrow> True | Some v \<Rightarrow> \<not> usable_payload v)
     | v \<Rightarrow> \<not> usable_payload v)"

section \<open>Provider payloads and their normalisation\<close>

text \<open>
  The body of a provider response: each field is a string, or absent (\<open>None\<close>, read as
  \<open>undefined\<close>).
\<close>

record omdb_data =
  Response :: "string option"
  imdbID :: "string option"
  Title :: "string option"
  Year :: "string option"
  Genre :: "string option"
  Director :: "string option"
  Actors :: "string option"
  Plot :: "string option"
  Poster :: "string option"
  imdbRating :: "string option"
  Runtime :: "string option"
  Language :: "string option"
  Country :: "string option"
  Rated :: "string option"
  Released :: "string option"
  Awards :: "string option"
  Error :: "string option"

definition field :: "string option \<Rightarrow> jsval" where
  "field x = (case x of None \<Rightarrow> JUndefined | Some s \<Rightarrow> JStr s)"

text \<open>The twelve columns a movie object shares with a row of \<open>movies_cache\<close>.\<close>

record movie_data =
  imdb_id :: jsval
  title :: jsval
  year :: jsval
  genre :: jsval
  director :: jsval
  actors :: jsval
  plot :: jsval
  poster_url :: jsval
  imdb_rating :: jsval
  runtime :: jsval
  language :: jsval
  country :: jsval

text \<open>
  \<open>formatMovieData\<close> of \<^verbatim>\<open>routes/movies.js\<close> (and, word for word, \<^verbatim>\<open>routes/favorites.js\<close>).
  The built-ins \<open>parseInt\<close> and \<open>parseFloat\<close> are parameters: functions from the field
  (\<open>None\<close> for \<open>undefined\<close>) to the number the runtime returns for it, rounded as the
  runtime rounds.
\<close>

definition formatMovieData_movies ::
  "(string option \<Rightarrow> jsnum) \<Rightarrow> (string option \<Rightarrow> jsnum) \<Rightarrow> omdb_data \<Rightarrow> movie_data" where
  "formatMovieData_movies parseInt parseFloat omdbData =
    \<lparr> imdb_id = field (imdbID omdbData),
      title = field (Title omdbData),
      year = js_or (JNum (parseInt (Year omdbData))) JNull,
      genre = field (Genre omdbData),
      director = field (Director omdbData),
      actors = field (Actors omdbData),
      plot = field (Plot omdbData),
      poster_url = (if field (Poster omdbData) \<noteq> JStr ''N/A'' then field (Poster omdbData) else JNull),
      imdb_rating = js_or (JNum (parseFloat (imdbRating omdbData))) JNull,
      runtime = field (Runtime omdbData),
      language = field (Language omdbData),
      country = field (Country omdbData) \<rparr>"

text \<open>
  The objects of \<^verbatim>\<open>routes/recommendations.js\<close>: the twelve columns and, where set,
  \<open>rated\<close>, \<open>released\<close>, \<open>awards\<close>, \<open>ai_reason\<close> and \<open>error\<close>; an unset key is
  \<open>JUndefined\<close>.
\<close>

record movie_details = movie_data +
  rated :: jsval
  released :: jsval
  awards :: jsval
  ai_reason :: jsval
  error_marker :: jsval

definition formatMovieData_recommendations ::
  "(string option \<Rightarrow> jsnum) \<Rightarrow> (string option \<Rightarrow> jsnum) \<Rightarrow> omdb_data \<Rightarrow> movie_details" where
  "formatMovieData_recommendations parseInt parseFloat omdbData =
    \<lparr> imdb_id = field (imdbID omdbData),
      title = field (Title omdbData),
      year = js_or (JNum (parseInt (Year omdbData))) JNull,
      genre = js_or (field (Genre omdbData)) (JStr ''Unknown''),
      director = js_or (field (Director omdbData)) (JStr ''Unknown''),
      actors = js_or (field (Actors omdbData)) (JStr ''Unknown''),
      plot = js_or (field (Plot omdbData)) (JStr ''Plot not available''),
      poster_url = (if field (Poster omdbData) \<noteq> JStr ''N/A'' then field (Poster omdbData) else JNull),
      imdb_rating = js_or (JNum (parseFloat (imdbRating omdbData))) JNull,
      runtime = js_or (field (Runtime omdbData)) (JStr ''Unknown''),
      language = js_or (field (Language omdbData)) (JStr ''Unknown''),
      country = js_or (field (Country omdbData)) (JStr ''Unknown''),
      rated = js_or (field (Rated omdbData)) (JStr ''Unknown''),
      released = js_or (field (Released omdbData)) (JStr ''Unknown''),
      awards = js_or (field (Awards omdbData)) (JStr ''Unknown''),
      ai_reason = JUndefined,
      error_marker = JUndefined \<rparr>"

section \<open>The movie cache (\<open>movies_cache\<close>)\<close>

text \<open>
  \<^verbatim>\<open>id INT AUTO_INCREMENT PRIMARY KEY, imdb_id VARCHAR(20) UNIQUE NOT NULL,
  title VARCHAR(255) NOT NULL, year INT, genre VARCHAR(255), director VARCHAR(255),
  actors TEXT, plot TEXT, poster_url VARCHAR(500), imdb_rating DECIMAL(3,1),
  runtime VARCHAR(20), language VARCHAR(100), country VARCHAR(100),
  created_at TIMESTAMP DEFAULT CURRENT_TIMESTAMP\<close>.

  A row is held as the driver hands it back from a \<^verbatim>\<open>SELECT\<close>. What the database
  engine and the driver do with a value is theirs and depends on the server (its SQL
  mode, its collation); it is taken from the engine:
  \<^item> \<open>db_available\<close>: whether a statement reaches the database at all;
  \<^item> \<open>stored_as\<close>: the twelve bound values as their columns store them and as a later
    \<^verbatim>\<open>SELECT\<close> returns them (a rating rounded to the scale of \<^verbatim>\<open>DECIMAL(3,1)\<close> and, the
    pool not setting \<open>decimalNumbers\<close>, returned as a string; a string cut to the width
    of its column), or the error with which the statement is rejected;
  \<^item> \<open>same_key\<close>: equality of two \<open>imdb_id\<close> values under the collation of the column,
    as the UNIQUE key and \<^verbatim>\<open>WHERE imdb_id = ?\<close> compare them;
  \<^item> \<open>title_like\<close>: the evaluation of \<^verbatim>\<open>title LIKE ?\<close> at the bound pattern
    \<^verbatim>\<open>`%${movieData.title}%`\<close> (first argument the candidate's title, second the
    row's);
  \<^item> \<open>rating_less\<close>: the order of two \<open>imdb_rating\<close> values under \<^verbatim>\<open>ORDER BY\<close>, NULL lowest.
\<close>

record movie_row = movie_data +
  mc_id :: nat
  created_at :: nat

record movies_cache =
  mc_rows :: "movie_row list"
  mc_next_id :: nat

record engine =
  db_available :: bool
  stored_as :: "movie_data \<Rightarrow> db_error + movie_data"
  same_key :: "jsval \<Rightarrow> jsval \<Rightarrow> bool"
  title_like :: "jsval \<Rightarrow> jsval \<Rightarrow> bool"
  rating_less :: "jsval \<Rightarrow> jsval \<Rightarrow> bool"

text \<open>The bound values of the statement, in the order of its placeholders.\<close>

definition bind_values :: "'a movie_data_scheme \<Rightarrow> jsval list" where
  "bind_values m =
     [imdb_id m, title m, year m, genre m, director m, actors m, plot m, poster_url m,
      imdb_rating m, runtime m, language m, country m]"

text \<open>The twelve columns of a row or of a movie object.\<close>

definition columns :: "'a movie_data_scheme \<Rightarrow> movie_data" where
  "columns m =
     \<lparr> imdb_id = imdb_id m, title = title m, year = year m, genre = genre m,
       director = director m, actors = actors m, plot = plot m, poster_url = poster_url m,
       imdb_rating = imdb_rating m, runtime = runtime m, language = language m,
       country = country m \<rparr>"

text \<open>The eleven columns assigned by \<^verbatim>\<open>ON DUPLICATE KEY UPDATE\<close>.\<close>

definition written_columns :: "'a movie_data_scheme \<Rightarrow> jsval list" where
  "written_columns m =
     [title m, year m, genre m, director m, actors m, plot m, poster_url m,
      imdb_rating m, runtime m, language m, country m]"

text \<open>
  \<^verbatim>\<open>INSERT INTO movies_cache (...) VALUES (?, ..., ?) ON DUPLICATE KEY UPDATE title = VALUES(title), ...\<close>.
  The driver refuses a bound \<open>undefined\<close>; the table refuses NULL in \<open>imdb_id\<close> and
  \<open>title\<close>; the engine may reject a value that does not fit its column. On a duplicate
  key eleven columns are assigned; \<open>id\<close>, \<open>imdb_id\<close> and \<open>created_at\<close> are not among
  them.
\<close>

definition update_columns :: "movie_data \<Rightarrow> movie_row \<Rightarrow> movie_row" where
  "update_columns v r =
     r\<lparr> title := title v, year := year v, genre := genre v, director := director v,
        actors := actors v, plot := plot v, poster_url := poster_url v,
        imdb_rating := imdb_rating v, runtime := runtime v, language := language v,
        country := country v \<rparr>"

definition new_row :: "nat \<Rightarrow> nat \<Rightarrow> movie_data \<Rightarrow> movie_row" where
  "new_row now n v =
     \<lparr> imdb_id = imdb_id v, title = title v, year = year v, genre = genre v,
       director = director v, actors = actors v, plot = plot v, poster_url = poster_url v,
       imdb_rating = imdb_rating v, runtime = runtime v, language = language v,
       country = country v, mc_id = n, created_at = now \<rparr>"

definition upsert_movie ::
  "'e engine_scheme \<Rightarrow> nat \<Rightarrow> 'a movie_data_scheme \<Rightarrow> movies_cache \<Rightarrow> db_error + movies_cache" where
  "upsert_movie eng now m st =
    (if JUndefined \<in> set (bind_values m) then Inl ER_BIND_UNDEFINED
     else if \<not> db_available eng then Inl ER_CONNECTION
     else if imdb_id m = JNull \<or> title m = JNull then Inl ER_BAD_NULL
     else case stored_as eng (columns m) of
       Inl e \<Rightarrow> Inl e
     | Inr v \<Rightarrow>
        if \<exists>r \<in> set (mc_rows st). same_key eng (imdb_id r) (imdb_id v)
        then Inr (st\<lparr> mc_rows :=
                      map (\<lambda>r. if same_key eng (imdb_id r) (imdb_id v) then update_columns v r else r)
                          (mc_rows st) \<rparr>)
        else Inr \<lparr> mc_rows = mc_rows st @ [new_row now (mc_next_id st) v],
                   mc_next_id = Suc (mc_next_id st) \<rparr>)"

text \<open>\<open>cacheMovie\<close>: the statement inside \<^verbatim>\<open>try\<close>; a failure is logged and swallowed.\<close>

definition cacheMovie ::
  "'e engine_scheme \<Rightarrow> nat \<Rightarrow> 'a movie_data_scheme \<Rightarrow> movies_cache \<Rightarrow> movies_cache" where
  "cacheMovie eng now movieData st =
    (case upsert_movie eng now movieData st of Inr st' \<Rightarrow> st' | Inl e \<Rightarrow> st)"



section \<open>Calls to the metadata provider\<close>

text \<open>
  One \<open>axios.get\<close>: the promise is rejected (network error, timeout, or a status outside
  2xx), or resolved with a body. A body is a payload object, or \<open>None\<close> for an empty
  one (\<open>null\<close>). The provider is an oracle from the number of requests issued so far and
  the query parameters to the outcome of the next request. The world records the number
  of requests and the delays slept between them, in milliseconds.
\<close>

datatype http_result = Rejected string | Resolved "omdb_data option"

datatype omdb_params =
    Search jsval jsval jsval
  | ById jsval
  | ByTitle jsval jsval

record net =
  requests :: nat
  sleeps :: "nat list"

datatype 'a fetched = Thrown string | Returned 'a | ReturnedUndefined

text \<open>
  \<open>fetchOmdb(params, retries = 3, timeout = 5000)\<close> of \<^verbatim>\<open>routes/movies.js\<close>: the loop
  \<^verbatim>\<open>for (let attempt = 1; attempt <= retries; attempt++)\<close>.
\<close>

function fetchOmdb_from ::
  "(nat \<Rightarrow> omdb_params \<Rightarrow> http_result) \<Rightarrow> omdb_params \<Rightarrow> nat \<Rightarrow> nat \<Rightarrow> net
     \<Rightarrow> (omdb_data option) fetched \<times> net" where
  "fetchOmdb_from omdb params retries attempt w =
    (if attempt \<le> retries then
       (case omdb (requests w) params of
          Resolved body \<Rightarrow> (Returned body, w\<lparr> requests := Suc (requests w) \<rparr>)
        | Rejected err \<Rightarrow>
            if attempt = retries then (Thrown err, w\<lparr> requests := Suc (requests w) \<rparr>)
            else fetchOmdb_from omdb params retries (Suc attempt)
                   (w\<lparr> requests := Suc (requests w), sleeps := sleeps w @ [500 * attempt] \<rparr>))
     else (ReturnedUndefined, w))"
  by pat_completeness auto
termination
  by (relation "measure (\<lambda>(omdb, params, retries, attempt, w). Suc retries - attempt)") auto

definition fetchOmdb ::
  "(nat \<Rightarrow> omdb_params \<Rightarrow> http_result) \<Rightarrow> omdb_params \<Rightarrow> net \<Rightarrow> (omdb_data option) fetched \<times> net" where
  "fetchOmdb omdb params w = fetchOmdb_from omdb params 3 1 w"

text \<open>
  The provider step of \<^verbatim>\<open>router.get('/search')\<close> (lines 47--64): a thrown error is a
  502, an empty body or \<^verbatim>\<open>Response === 'False'\<close> is a 404 with the provider's message.
\<close>

datatype search_step = Status502 | Status404 jsval | Continue omdb_data

definition search_fetch ::
  "(nat \<Rightarrow> omdb_params \<Rightarrow> http_result) \<Rightarrow> jsval \<Rightarrow> jsval \<Rightarrow> jsval \<Rightarrow> net \<Rightarrow> search_step \<times> net" where
  "search_fetch omdb title_q year_q page_q w =
    (case fetchOmdb omdb (Search title_q year_q page_q) w of
       (Thrown err, w') \<Rightarrow> (Status502, w')
     | (ReturnedUndefined, w') \<Rightarrow> (Status404 (JStr ''No movies found''), w')
     | (Returned None, w') \<Rightarrow> (Status404 (JStr ''No movies found''), w')
     | (Returned (Some omdbData), w') \<Rightarrow>
         if Response omdbData = Some ''False''
         then (Status404 (js_or (field (Error omdbData)) (JStr ''No movies found'')), w')
         else (Continue omdbData, w'))"

section \<open>Reconciliation of the candidates (\<open>getMovieDetailsForRecommendations\<close>)\<close>

record candidate =
  cand_title :: jsval
  cand_year :: jsval
  cand_reason :: jsval

text \<open>
  What the function reads from outside: the database engine, the provider key of the
  process environment, the provider, and the built-ins \<open>parseInt\<close> and \<open>parseFloat\<close> of
  the runtime.
\<close>

record environment = engine +
  OMDB_API_KEY :: "string option"
  omdb_api :: "nat \<Rightarrow> omdb_params \<Rightarrow> http_result"
  js_parseInt :: "string option \<Rightarrow> jsnum"
  js_parseFloat :: "string option \<Rightarrow> jsnum"

record world =
  movies :: movies_cache
  network :: net

datatype detailed_movie = FromCache movie_row jsval | Details movie_details

text \<open>\<^verbatim>\<open>ORDER BY imdb_rating DESC LIMIT 1\<close>: the first row that no other row precedes.\<close>

fun top_rated :: "'e engine_scheme \<Rightarrow> movie_row list \<Rightarrow> movie_row option" where
  "top_rated eng [] = None"
| "top_rated eng (r # rs) =
     (case top_rated eng rs of
        None \<Rightarrow> Some r
      | Some b \<Rightarrow> if rating_less eng (imdb_rating r) (imdb_rating b) then Some b else Some r)"

definition select_by_title :: "'e engine_scheme \<Rightarrow> jsval \<Rightarrow> movies_cache \<Rightarrow> movie_row option" where
  "select_by_title eng t st = top_rated eng (filter (\<lambda>r. title_like eng t (title r)) (mc_rows st))"

definition has_key :: "environment \<Rightarrow> bool" where
  "has_key env = (case OMDB_API_KEY env of None \<Rightarrow> False | Some k \<Rightarrow> k \<noteq> [])"

text \<open>The three objects pushed for a candidate that is not resolved.\<close>

definition basic_info :: "candidate \<Rightarrow> string \<Rightarrow> jsval \<Rightarrow> movie_details" where
  "basic_info movieData plot_text err =
    \<lparr> imdb_id = JUndefined, title = cand_title movieData, year = cand_year movieData,
      genre = JStr ''Unknown'', director = JStr ''Unknown'', actors = JStr ''Unknown'',
      plot = JStr plot_text, poster_url = JNull, imdb_rating = JNull,
      runtime = JUndefined, language = JUndefined, country = JUndefined,
      rated = JUndefined, released = JUndefined, awards = JUndefined,
      ai_reason = cand_reason movieData, error_marker = err \<rparr>"

definition without_key :: "candidate \<Rightarrow> movie_details" where
  "without_key movieData = basic_info movieData ''Plot information unavailable'' JUndefined"

definition not_found :: "candidate \<Rightarrow> movie_details" where
  "not_found movieData = basic_info movieData ''Movie details not available'' (JStr ''Details not found'')"

definition fetch_failed :: "candidate \<Rightarrow> movie_details" where
  "fetch_failed movieData = basic_info movieData ''Error fetching movie details'' (JStr ''Fetch failed'')"

text \<open>
  The body of the loop for one candidate; \<open>Inl\<close> is an error that leaves the function.

  The first statement of the \<^verbatim>\<open>try\<close> builds the pattern \<^verbatim>\<open>`%${movieData.title}%`\<close>, which
  converts the title to a string. Line 378 keeps any truthy \<open>title\<close> of the model's
  answer, so the title may be an object; when its conversion throws, the \<^verbatim>\<open>catch\<close> is
  entered, and the first statement there,
  \<^verbatim>\<open>console.error(`Error fetching details for ${movieData.title}:`, ...)\<close>, converts the
  title again and throws out of the loop. Every other exception of the body (a
  rejected query, a rejected request, reading \<open>Response\<close> of an empty body) ends in the
  \<^verbatim>\<open>catch\<close>, which pushes the \<open>Fetch failed\<close> object.
\<close>

definition resolve_candidate ::
  "environment \<Rightarrow> nat \<Rightarrow> candidate \<Rightarrow> world \<Rightarrow> (string + detailed_movie) \<times> world" where
  "resolve_candidate env now movieData w =
    (if toString_throws (cand_title movieData)
       then (Inl ''Cannot convert object to primitive value'', w)
     else if \<not> db_available env then (Inr (Details (fetch_failed movieData)), w)
     else case select_by_title env (cand_title movieData) (movies w) of
       Some cached \<Rightarrow> (Inr (FromCache cached (cand_reason movieData)), w)
     | None \<Rightarrow>
        if \<not> has_key env then (Inr (Details (without_key movieData)), w)
        else
          (let w' = w\<lparr> network := (network w)\<lparr> requests := Suc (requests (network w)) \<rparr> \<rparr>
           in case omdb_api env (requests (network w)) (ByTitle (cand_title movieData) (cand_year movieData)) of
                Rejected err \<Rightarrow> (Inr (Details (fetch_failed movieData)), w')
              | Resolved None \<Rightarrow> (Inr (Details (fetch_failed movieData)), w')
              | Resolved (Some body) \<Rightarrow>
                  if Response body = Some ''True'' then
                    (let movieDetails =
                           (formatMovieData_recommendations (js_parseInt env) (js_parseFloat env) body)
                             \<lparr> ai_reason := cand_reason movieData \<rparr>
                     in (Inr (Details movieDetails),
                         w'\<lparr> movies := cacheMovie env now movieDetails (movies w') \<rparr>))
                  else (Inr (Details (not_found movieData)), w')))"

text \<open>
  The loop. An error of one candidate is the error of the call: the items gathered so
  far are lost and the candidates after it are not processed.
\<close>

fun getMovieDetailsForRecommendations ::
  "environment \<Rightarrow> nat \<Rightarrow> candidate list \<Rightarrow> world \<Rightarrow> (string + detailed_movie list) \<times> world" where
  "getMovieDetailsForRecommendations env now [] w = (Inr [], w)"
| "getMovieDetailsForRecommendations env now (movieData # rest) w =
    (case resolve_candidate env now movieData w of
       (Inl err, w1) \<Rightarrow> (Inl err, w1)
     | (Inr item, w1) \<Rightarrow>
         (case getMovieDetailsForRecommendations env now rest w1 of
            (Inl err, w2) \<Rightarrow> (Inl err, w2)
          | (Inr items, w2) \<Rightarrow> (Inr (item # items), w2)))"

text \<open>
  A candidate is unresolved in a world when the cache query fails, or it matches no
  row and either no key is configured, or the request is rejected, or the body is
  empty, or the body does not say \<^verbatim>\<open>Response === 'True'\<close>.
\<close>

definition unresolved :: "environment \<Rightarrow> candidate \<Rightarrow> world \<Rightarrow> bool" where
  "unresolved env movieData w =
    (\<not> db_available env \<or>
     (select_by_title env (cand_title movieData) (movies w) = None \<and>
      (\<not> has_key env \<or>
       (case omdb_api env (requests (network w)) (ByTitle (cand_title movieData) (cand_year movieData)) of
          Rejected err \<Rightarrow> True
        | Resolved None \<Rightarrow> True
        | Resolved (Some body) \<Rightarrow> Response body \<noteq> Some ''True''))))"

text \<open>A placeholder for a candidate: its title, year and rationale, and the sentinels.\<close>

definition placeholder_for :: "candidate \<Rightarrow> movie_details \<Rightarrow> bool" where
  "placeholder_for movieData p =
    (title p = cand_title movieData \<and> year p = cand_year movieData
     \<and> ai_reason p = cand_reason movieData
     \<and> imdb_id p = JUndefined
     \<and> plot p \<in> {JStr ''Plot information unavailable'', JStr ''Movie details not available'',
                   JStr ''Error fetching movie details''}
     \<and> genre p = JStr ''Unknown'' \<and> director p = JStr ''Unknown'' \<and> actors p = JStr ''Unknown''
     \<and> poster_url p = JNull \<and> imdb_rating p = JNull)"

section \<open>Regular expressions of the title extractor\<close>

text \<open>
  The expressions of \<open>extractMovieTitlesFromText\<close> are sequences of character classes
  under \<open>+\<close>, \<open>*\<close> or \<open>{n}\<close>, literals, an alternation of literals, \<open>\b\<close>, \<open>^\<close>, and the
  parentheses of one capture group. They are matched as ECMAScript matches them: from
  left to right, each quantifier greedy, backtracking to a shorter repetition when the
  rest of the expression fails.
\<close>

datatype piece =
    One "char \<Rightarrow> bool"
  | Plus "char \<Rightarrow> bool"
  | Star "char \<Rightarrow> bool"
  | Times nat "char \<Rightarrow> bool"
  | Lit string
  | Alt "string list"
  | WordBoundary
  | Bol
  | Open
  | Close

definition is_word_char :: "char \<Rightarrow> bool" where
  "is_word_char c =
     ((48 \<le> code_unit c \<and> code_unit c \<le> 57) \<or> (65 \<le> code_unit c \<and> code_unit c \<le> 90)
      \<or> (97 \<le> code_unit c \<and> code_unit c \<le> 122) \<or> code_unit c = 95)"

definition is_digit :: "char \<Rightarrow> bool" where
  "is_digit c = (48 \<le> code_unit c \<and> code_unit c \<le> 57)"

definition is_AZ :: "char \<Rightarrow> bool" where
  "is_AZ c = (65 \<le> code_unit c \<and> code_unit c \<le> 90)"

definition is_az :: "char \<Rightarrow> bool" where
  "is_az c = (97 \<le> code_unit c \<and> code_unit c \<le> 122)"

definition not_newline :: "char \<Rightarrow> bool" where
  "not_newline c = (code_unit c \<noteq> 10 \<and> code_unit c \<noteq> 13)"

text \<open>Canonicalize of the \<open>i\<close> flag: the upper-case form, where it is a single code unit below 256.\<close>

definition canonicalize :: "char \<Rightarrow> char" where
  "canonicalize c =
     (if (97 \<le> code_unit c \<and> code_unit c \<le> 122)
         \<or> (224 \<le> code_unit c \<and> code_unit c \<le> 254 \<and> code_unit c \<noteq> 247)
      then char_of (code_unit c - 32) else c)"

definition lit_at :: "bool \<Rightarrow> string \<Rightarrow> string \<Rightarrow> nat \<Rightarrow> bool" where
  "lit_at ic l s i =
     (let t = take (length l) (drop i s)
      in if ic then map canonicalize t = map canonicalize l else t = l)"

definition run_of :: "(char \<Rightarrow> bool) \<Rightarrow> string \<Rightarrow> nat \<Rightarrow> nat" where
  "run_of c s i = length (takeWhile c (drop i s))"

definition word_at :: "string \<Rightarrow> nat \<Rightarrow> bool" where
  "word_at s i = (i < length s \<and> is_word_char (s ! i))"

definition at_word_boundary :: "string \<Rightarrow> nat \<Rightarrow> bool" where
  "at_word_boundary s i = ((i > 0 \<and> word_at s (i - 1)) \<noteq> word_at s i)"

text \<open>The longest repetition count from \<open>lo + n\<close> down to \<open>lo\<close> with which the rest matches.\<close>

primrec descend :: "(nat \<Rightarrow> 'a option) \<Rightarrow> nat \<Rightarrow> nat \<Rightarrow> 'a option" where
  "descend f lo 0 = f lo"
| "descend f lo (Suc n) = (case f (lo + Suc n) of Some r \<Rightarrow> Some r | None \<Rightarrow> descend f lo n)"

definition greedy :: "(nat \<Rightarrow> 'a option) \<Rightarrow> nat \<Rightarrow> nat \<Rightarrow> 'a option" where
  "greedy f lo hi = (if hi < lo then None else descend f lo (hi - lo))"

primrec first_alt :: "(string \<Rightarrow> 'a option) \<Rightarrow> string list \<Rightarrow> 'a option" where
  "first_alt f [] = None"
| "first_alt f (l # ls) = (case f l of Some r \<Rightarrow> Some r | None \<Rightarrow> first_alt f ls)"

text \<open>
  A match of the pieces at position \<open>i\<close> of \<open>s\<close>: the end of the match and the start and
  end of the capture group.
\<close>

type_synonym marks = "nat option \<times> nat option"

primrec match_here ::
  "piece list \<Rightarrow> bool \<Rightarrow> string \<Rightarrow> nat \<Rightarrow> marks \<Rightarrow> (nat \<times> marks) option" where
  "match_here [] ic s i cap = Some (i, cap)"
| "match_here (p # ps) ic s i cap =
    (case p of
       One c \<Rightarrow> if i < length s \<and> c (s ! i) then match_here ps ic s (i + 1) cap else None
     | Plus c \<Rightarrow> greedy (\<lambda>k. match_here ps ic s (i + k) cap) 1 (run_of c s i)
     | Star c \<Rightarrow> greedy (\<lambda>k. match_here ps ic s (i + k) cap) 0 (run_of c s i)
     | Times n c \<Rightarrow> if n \<le> run_of c s i then match_here ps ic s (i + n) cap else None
     | Lit l \<Rightarrow> if lit_at ic l s i then match_here ps ic s (i + length l) cap else None
     | Alt ls \<Rightarrow>
         first_alt (\<lambda>l. if lit_at ic l s i then match_here ps ic s (i + length l) cap else None) ls
     | WordBoundary \<Rightarrow> if at_word_boundary s i then match_here ps ic s i cap else None
     | Bol \<Rightarrow> if i = 0 then match_here ps ic s i cap else None
     | Open \<Rightarrow> match_here ps ic s i (Some i, snd cap)
     | Close \<Rightarrow> match_here ps ic s i (fst cap, Some i))"

text \<open>
  A regular expression is its pieces and its \<open>i\<close> flag. \<open>rx_exec\<close> is the first match at
  or after a position: its start, its end, and the text of the capture group.
\<close>

type_synonym regex = "piece list \<times> bool"

definition captured :: "string \<Rightarrow> marks \<Rightarrow> string" where
  "captured s cap =
     (case cap of (Some b, Some e) \<Rightarrow> take (e - b) (drop b s) | _ \<Rightarrow> [])"

function rx_exec :: "regex \<Rightarrow> string \<Rightarrow> nat \<Rightarrow> (nat \<times> nat \<times> string) option" where
  "rx_exec re s i =
    (if length s < i then None
     else case match_here (fst re) (snd re) s i (None, None) of
            Some (e, cap) \<Rightarrow> Some (i, e, captured s cap)
          | None \<Rightarrow> rx_exec re s (Suc i))"
  by pat_completeness auto
termination
  by (relation "measure (\<lambda>(re, s, i). Suc (length s) - i)") auto

text \<open>
  \<open>matchAll\<close> with the \<open>g\<close> flag: the matches from left to right, each search starting
  where the previous match ended (one further on after an empty match). The walk visits
  every position \<open>i\<close> and tries a match there once \<open>i\<close> has reached \<open>lastIndex\<close>.
\<close>

function rx_matchAll_from :: "regex \<Rightarrow> string \<Rightarrow> nat \<Rightarrow> nat \<Rightarrow> (nat \<times> nat \<times> string) list" where
  "rx_matchAll_from re s i lastIndex =
    (if length s < i then []
     else if i < lastIndex then rx_matchAll_from re s (Suc i) lastIndex
     else case match_here (fst re) (snd re) s i (None, None) of
            Some (e, cap) \<Rightarrow>
              (i, e, captured s cap) # rx_matchAll_from re s (Suc i) (if e = i then Suc e else e)
          | None \<Rightarrow> rx_matchAll_from re s (Suc i) lastIndex)"
  by pat_completeness auto
termination
  by (relation "measure (\<lambda>(re, s, i, lastIndex). Suc (length s) - i)") auto

definition rx_matchAll :: "regex \<Rightarrow> string \<Rightarrow> (nat \<times> nat \<times> string) list" where
  "rx_matchAll re s = rx_matchAll_from re s 0 0"

text \<open>\<open>s.replace(re, '')\<close> without and with the \<open>g\<close> flag.\<close>

definition rx_remove_first :: "regex \<Rightarrow> string \<Rightarrow> string" where
  "rx_remove_first re s =
    (case rx_exec re s 0 of None \<Rightarrow> s | Some (b, e, cap) \<Rightarrow> take b s @ drop e s)"

fun cut_matches :: "string \<Rightarrow> nat \<Rightarrow> (nat \<times> nat \<times> string) list \<Rightarrow> string" where
  "cut_matches s pos [] = drop pos s"
| "cut_matches s pos ((b, e, cap) # ms) = take (b - pos) (drop pos s) @ cut_matches s e ms"

definition rx_remove_all :: "regex \<Rightarrow> string \<Rightarrow> string" where
  "rx_remove_all re s = cut_matches s 0 (rx_matchAll re s)"

text \<open>\<open>text.split(/\n|\r\n/)\<close>: a separator is a line feed, or a carriage return and a line feed.\<close>

fun split_lines :: "string \<Rightarrow> string \<Rightarrow> string list" where
  "split_lines cur [] = [rev cur]"
| "split_lines cur [c] =
     (if code_unit c = 10 then [rev cur, []] else [rev (c # cur)])"
| "split_lines cur (c # d # cs) =
     (if code_unit c = 10 then rev cur # split_lines [] (d # cs)
      else if code_unit c = 13 \<and> code_unit d = 10 then rev cur # split_lines [] cs
      else split_lines (c # cur) (d # cs))"

section \<open>The fallback title extractor (\<open>extractMovieTitlesFromText\<close>)\<close>

text \<open>
  The six patterns, in the order of the source. The bullet U+2022 of the third class is
  outside the strings modelled here.
\<close>

definition patterns :: "regex list" where
  "patterns =
    [([One (\<lambda>c. c = CHR 0x22), Open, Plus (\<lambda>c. c \<noteq> CHR 0x22), Close, One (\<lambda>c. c = CHR 0x22)], False),
     ([Plus is_digit, One (\<lambda>c. c = CHR ''.''), Star is_space, Open, Plus not_newline, Close], False),
     ([One (\<lambda>c. c = CHR ''-'' \<or> c = CHR ''*''), Star is_space, Open, Plus not_newline, Close], False),
     ([Lit ''Title:'', Star is_space, Open, Plus not_newline, Close], True),
     ([Lit ''Movie:'', Star is_space, Open, Plus not_newline, Close], True),
     ([Open, WordBoundary, One is_AZ, Plus (\<lambda>c. is_az c \<or> is_AZ c \<or> is_space c),
       One (\<lambda>c. c = CHR ''(''), Times 4 is_digit, One (\<lambda>c. c = CHR '')''), Close], False)]"

text \<open>The characters kept by \<^verbatim>\<open>/[^\w\s\-:!?&.,]/g\<close>.\<close>

definition kept_char :: "char \<Rightarrow> bool" where
  "kept_char c = (is_word_char c \<or> is_space c \<or> c \<in> set ''-:!?&.,'')"

definition numbering :: regex where
  "numbering = ([Bol, Plus is_digit, One (\<lambda>c. c = CHR ''.''), Star is_space], False)"

definition year_in_parentheses :: regex where
  "year_in_parentheses = ([One (\<lambda>c. c = CHR ''(''), Times 4 is_digit, One (\<lambda>c. c = CHR '')'')], False)"

definition prefixes :: regex where
  "prefixes = ([Bol, Open, Alt [''Title'', ''Movie''], Close, One (\<lambda>c. c = CHR '':''), Star is_space], True)"

definition special_chars :: regex where
  "special_chars = ([One (\<lambda>c. \<not> kept_char c)], False)"

definition bullet :: regex where
  "bullet = ([Bol, One (\<lambda>c. c = CHR ''-'' \<or> c = CHR ''*''), Star is_space], False)"

text \<open>Lines 450--456: the title of one match.\<close>

definition clean_title :: "string \<Rightarrow> string" where
  "clean_title captured_text =
    (let t0 = trim captured_text;
         t1 = rx_remove_first numbering t0;
         t2 = trim (rx_remove_first year_in_parentheses t1);
         t3 = rx_remove_all prefixes t2;
         t4 = trim (rx_remove_all special_chars t3)
     in t4)"

text \<open>Lines 459--461.\<close>

definition push_title :: "string list \<Rightarrow> string \<Rightarrow> string list" where
  "push_title titles t =
    (if length t > 2 \<and> length t < 100 \<and> t \<notin> set titles then titles @ [t] else titles)"

definition titles_of_pattern :: "regex \<Rightarrow> string \<Rightarrow> string list \<Rightarrow> string list" where
  "titles_of_pattern pattern text titles =
     foldl (\<lambda>ts m. push_title ts (clean_title (snd (snd m)))) titles (rx_matchAll pattern text)"

text \<open>The loop over the patterns, left after the first pattern that brings the count to five.\<close>

fun scan_patterns :: "regex list \<Rightarrow> string \<Rightarrow> string list \<Rightarrow> string list" where
  "scan_patterns [] text titles = titles"
| "scan_patterns (pattern # rest) text titles =
    (let titles' = titles_of_pattern pattern text titles
     in if length titles' \<ge> 5 then titles' else scan_patterns rest text titles')"

text \<open>Lines 468--477: the first lines, when no pattern gave a title.\<close>

definition clean_line :: "string \<Rightarrow> string" where
  "clean_line line = trim (rx_remove_first bullet (rx_remove_first numbering line))"

fun take_lines :: "string list \<Rightarrow> string list \<Rightarrow> string list" where
  "take_lines [] titles = titles"
| "take_lines (line # rest) titles =
    (let cleanLine = clean_line line;
         titles' = (if length cleanLine > 2 \<and> length cleanLine < 100
                    then titles @ [cleanLine] else titles)
     in if length titles' \<ge> 5 then titles' else take_lines rest titles')"

definition nonempty_lines :: "string \<Rightarrow> string list" where
  "nonempty_lines text = filter (\<lambda>line. length (trim line) > 0) (split_lines [] text)"

definition extractMovieTitlesFromText :: "string \<Rightarrow> string list" where
  "extractMovieTitlesFromText text =
    (let titles = scan_patterns patterns text [];
         titles' = (if length titles = 0 then take_lines (nonempty_lines text) [] else titles)
     in take 5 titles')"

section \<open>The language-model call (\<open>generateAIRecommendations\<close>)\<close>

text \<open>
  The outcome of the one \<open>axios.post\<close>: the text of the first completion; an error
  carrying a response (its status, \<open>data.error.message\<close>, and the error's own message);
  or any other error, with its message.
\<close>

datatype groq_result = Content string | HttpError nat jsval string | OtherError string

record ai_environment =
  GROQ_API_KEY :: "string option"
  groq_post :: "string \<Rightarrow> groq_result"

datatype ai_result = AiSuccess jsval "candidate list" | AiFailure string jsval

text \<open>
  Lines 341--382, from the text of the completion on. \<open>Inl\<close> is the message of the
  error thrown; \<open>JSON.parse\<close> is the parameter \<open>parse\<close>, \<open>None\<close> when it throws.
\<close>

definition fallback_response :: "string list \<Rightarrow> jsval" where
  "fallback_response movieTitles =
     JObj [(''explanation'', JStr ''AI-generated recommendations based on your request.''),
           (''movies'', JArr (map (\<lambda>t. JObj [(''title'', JStr t), (''year'', JNull),
                                               (''reason'', JStr ''Recommended by AI'')])
                                  movieTitles))]"

definition parse_or_extract :: "(string \<Rightarrow> jsval option) \<Rightarrow> string \<Rightarrow> string + jsval" where
  "parse_or_extract parse aiContent =
    (case parse aiContent of
       Some parsedResponse \<Rightarrow> Inr parsedResponse
     | None \<Rightarrow>
        (let movieTitles = extractMovieTitlesFromText aiContent
         in if length movieTitles = 0
            then Inl ''Could not extract movie titles from AI response''
            else Inr (fallback_response movieTitles)))"

definition is_nullish :: "jsval \<Rightarrow> bool" where
  "is_nullish v = (v = JNull \<or> v = JUndefined)"

definition to_candidate :: "jsval \<Rightarrow> candidate" where
  "to_candidate m =
     \<lparr> cand_title = js_or (get_prop m ''title'') (JStr ''Unknown Title''),
       cand_year = get_prop m ''year'',
       cand_reason = js_or (get_prop m ''reason'') (JStr ''Recommended by AI'') \<rparr>"

definition validate_response :: "jsval \<Rightarrow> string + (jsval \<times> candidate list)" where
  "validate_response parsedResponse =
    (if is_nullish parsedResponse
       then Inl ''Cannot read properties of null (reading 'movies')''
     else if \<not> truthy (get_prop parsedResponse ''movies'') \<or> \<not> isArray (get_prop parsedResponse ''movies'')
       then Inl ''Invalid response format from AI''
     else if length (elems (get_prop parsedResponse ''movies'')) = 0
       then Inl ''No movie recommendations returned from AI''
     else if \<exists>m \<in> set (elems (get_prop parsedResponse ''movies'')). is_nullish m
       then Inl ''Cannot read properties of null (reading 'title')''
     else Inr (js_or (get_prop parsedResponse ''explanation'') (JStr ''AI-generated recommendations''),
               map to_candidate (elems (get_prop parsedResponse ''movies''))))"

definition interpret_content ::
  "(string \<Rightarrow> jsval option) \<Rightarrow> string \<Rightarrow> string + (jsval \<times> candidate list)" where
  "interpret_content parse aiContent =
    (case parse_or_extract parse aiContent of
       Inl msg \<Rightarrow> Inl msg
     | Inr parsedResponse \<Rightarrow> validate_response parsedResponse)"

text \<open>The \<^verbatim>\<open>catch\<close> of lines 384--428.\<close>

definition report_http_error :: "nat \<Rightarrow> jsval \<Rightarrow> string \<Rightarrow> ai_result" where
  "report_http_error status data_message message =
    (if status = 400 then
       AiFailure ''Invalid request format or parameters''
         (js_or data_message (JStr ''Bad request to AI service''))
     else if status = 401 then
       AiFailure ''Authentication failed'' (JStr ''Invalid or expired API key'')
     else if status = 429 then
       AiFailure ''Rate limit exceeded'' (JStr ''Too many requests. Please try again later.'')
     else if status = 500 \<or> status = 502 \<or> status = 503 then
       AiFailure ''AI service unavailable''
         (JStr ''The AI service is temporarily down. Please try again later.'')
     else AiFailure ''Error generating AI recommendations'' (js_or data_message (JStr message)))"

definition report_error :: "string \<Rightarrow> ai_result" where
  "report_error message = AiFailure ''Error generating AI recommendations'' (JStr message)"

definition generateAIRecommendations ::
  "ai_environment \<Rightarrow> (string \<Rightarrow> jsval option) \<Rightarrow> string \<Rightarrow> ai_result" where
  "generateAIRecommendations env parse prompt =
    (if (case GROQ_API_KEY env of None \<Rightarrow> True | Some k \<Rightarrow> k = [])
       then report_error ''GROQ_API_KEY not found in environment variables''
     else case groq_post env prompt of
       HttpError status data_message message \<Rightarrow> report_http_error status data_message message
     | OtherError message \<Rightarrow> report_error message
     | Content aiContent \<Rightarrow>
         (case interpret_content parse aiContent of
            Inl message \<Rightarrow> report_error message
          | Inr (explanation, movieTitles) \<Rightarrow> AiSuccess explanation movieTitles))"

text \<open>
  A parsed response the validation accepts: not \<open>null\<close>, with a \<open>movies\<close> array that is
  not empty and has no \<open>null\<close> entry.
\<close>

definition accepted_response :: "jsval \<Rightarrow> bool" where
  "accepted_response v =
    (\<not> is_nullish v \<and> isArray (get_prop v ''movies'') \<and> elems (get_prop v ''movies'') \<noteq> []
     \<and> (\<forall>m \<in> set (elems (get_prop v ''movies'')). \<not> is_nullish m))"

section \<open>Properties of the recommendation cache\<close>

lemma is_space_lower_char: "is_space (lower_char c) = is_space c"
proof (cases "is_upper c")
  case False then show ?thesis by (simp add: lower_char_def)
next
  case True
  have lt: "code_unit c < 256" by (simp add: code_unit_def)
  from True lt have "code_unit (char_of (code_unit c + 32)) = code_unit c + 32"
    by (auto simp: code_unit_def is_upper_def)
  with True show ?thesis
    by (auto simp: lower_char_def is_space_def is_upper_def)
qed

lemma dropWhile_space_lower:
  "dropWhile is_space (map lower_char s) = map lower_char (dropWhile is_space s)"
  by (induction s) (simp_all add: is_space_lower_char)

lemma trim_toLowerCase: "trim (toLowerCase s) = toLowerCase (trim s)"
  by (simp add: trim_def toLowerCase_def dropWhile_space_lower rev_map)

text \<open>
  C8. Two prompts that are equal after lower-casing and trimming have the same prompt
  hash. The route lower-cases first and trims second; the two orders give the same
  string, so the hypothesis may be read either way.
\<close>

theorem promptHash_normalized:
  assumes "trim (toLowerCase p1) = trim (toLowerCase p2)
           \<or> toLowerCase (trim p1) = toLowerCase (trim p2)"
  shows "promptHash sha256_hex p1 = promptHash sha256_hex p2"
  using assms by (auto simp: promptHash_def trim_toLowerCase)

theorem promptHash_normalized_witness:
  "promptHash (\<lambda>s. s) ''  Dark Thriller '' = promptHash (\<lambda>s. s) ''dark thriller''
   \<and> ''  Dark Thriller '' \<noteq> ''dark thriller''"
proof -
  have "trim (toLowerCase ''  Dark Thriller '') = trim (toLowerCase ''dark thriller'')"
    by code_simp
  then show ?thesis
    using promptHash_normalized [of "''  Dark Thriller ''" "''dark thriller''" "\<lambda>s. s"] by simp
qed

lemma select_cached_expired:
  assumes "\<forall>r \<in> set (ai_rows c). prompt_hash r = h \<longrightarrow> \<not> live_at now r"
  shows "select_cached now h c = []"
  using assms by (auto simp: select_cached_def filter_empty_conv)

text \<open>
  C7. A row whose \<open>expires_at\<close> is not in the future at the time of the read is a miss,
  although the row is still in the table. The UNIQUE key on \<open>prompt_hash\<close> is the
  first hypothesis.
\<close>

theorem cache_get_expired_miss:
  assumes "distinct (map prompt_hash (ai_rows c))"
    and "r \<in> set (ai_rows c)" and "prompt_hash r = h"
    and "expires_at r = Some e" and "e \<le> now"
  shows "cache_get parse now h c = None"
proof -
  have "r' = r" if "r' \<in> set (ai_rows c)" "prompt_hash r' = h" for r'
    using that assms(1,2,3) by (auto simp: distinct_map dest: inj_onD)
  then have "\<forall>r' \<in> set (ai_rows c). prompt_hash r' = h \<longrightarrow> \<not> live_at now r'"
    using assms(4,5) by (auto simp: live_at_def)
  then show ?thesis
    by (simp add: cache_get_def select_cached_expired)
qed

theorem cache_get_expired_miss_witness:
  "cache_get (\<lambda>s. None) 100000 ''h1''
     \<lparr> ai_rows = [\<lparr> ai_id = 1, prompt_hash = ''h1'', user_prompt = ''dark thriller'',
                    recommendations_col = JObj [(''recommendations'', JArr [])],
                    ai_created_at = 0, expires_at = Some 86400 \<rparr>],
       ai_next_id = 2 \<rparr> = None"
proof -
  let ?row = "\<lparr> ai_id = 1, prompt_hash = ''h1'', user_prompt = ''dark thriller'',
                 recommendations_col = JObj [(''recommendations'', JArr [])],
                 ai_created_at = 0, expires_at = Some (86400::nat) \<rparr>"
  let ?c = "\<lparr> ai_rows = [?row], ai_next_id = 2 \<rparr>"
  have "distinct (map prompt_hash (ai_rows ?c))" "?row \<in> set (ai_rows ?c)"
    "prompt_hash ?row = ''h1''" "expires_at ?row = Some 86400" "(86400::nat) \<le> 100000"
    by simp_all
  from cache_get_expired_miss [OF this] show ?thesis .
qed

lemma normalize_unusable:
  assumes "\<not> usable_payload parsed \<or> \<not> truthy parsed"
    and "\<not> isArray (get_prop raw ''recommendations'')"
  shows "normalize_recommendations raw parsed = []"
  using assms by (auto simp: normalize_recommendations_def usable_payload_def Let_def)

lemma irrecoverable_normalizes_empty:
  assumes "irrecoverable parse raw"
  shows "normalize_recommendations raw (parse_raw parse raw) = []"
proof (cases raw)
  case (JStr s)
  with assms show ?thesis
    by (auto simp: irrecoverable_def parse_raw_def intro!: normalize_unusable
        split: option.splits bool.splits if_splits)
next
  case (JBuffer b)
  with assms show ?thesis
    by (auto simp: irrecoverable_def parse_raw_def intro!: normalize_unusable
        split: option.splits bool.splits if_splits)
next
  case (JObj kvs)
  with assms show ?thesis
    by (auto simp: irrecoverable_def parse_raw_def usable_payload_def intro!: normalize_unusable
        split: option.splits bool.splits if_splits)
next
  case (JArr xs)
  with assms show ?thesis by (simp add: irrecoverable_def usable_payload_def)
qed (use assms in \<open>simp_all add: irrecoverable_def parse_raw_def usable_payload_def
       normalize_recommendations_def\<close>)

text \<open>
  C2, as the claim states it: an unparsable stored payload would be a miss. It is not:
  the live row with the payload \<open>not json\<close> is answered from the cache, with an empty
  list.
\<close>

theorem cache_get_garbage_counterexample:
  "cache_get (\<lambda>s. None) 100 ''h1''
     \<lparr> ai_rows = [\<lparr> ai_id = 1, prompt_hash = ''h1'', user_prompt = ''dark thriller'',
                    recommendations_col = JStr ''not json'', ai_created_at = 0,
                    expires_at = Some 86400 \<rparr>],
       ai_next_id = 2 \<rparr>
   = Some \<lparr> source = ''cache'', recommendations = [], originalPrompt = JStr ''dark thriller'' \<rparr>"
  by (simp add: cache_get_def select_cached_def live_at_def cached_reply_def parse_raw_def
      normalize_recommendations_def js_or_def js_and_def)

text \<open>
  C2, amended. For a live row whose payload is irrecoverable, the read path does not
  raise (\<open>cache_get\<close> is total and every exception of the source is one of its
  branches) and answers from the cache with an empty list of recommendations; the
  language model is not called again. The warning is logged when decoding throws, as
  it does for a string that \<open>JSON.parse\<close> rejects; a decoded object with no
  \<open>toString\<close> key of its own is set aside without one.
\<close>

theorem cache_get_garbage_is_empty_hit:
  assumes "select_cached now h c = row # rest"
    and "irrecoverable parse (recommendations_col row)"
  shows "(\<exists>reply. cache_get parse now h c = Some reply
           \<and> source reply = ''cache'' \<and> recommendations reply = [])
         \<and> (\<forall>s. recommendations_col row = JStr s \<and> parse s = None
                \<longrightarrow> parse_warning_logged parse (recommendations_col row))
         \<and> (\<forall>kvs. recommendations_col row = JObj kvs \<and> map_of kvs ''toString'' = None
                \<longrightarrow> \<not> parse_warning_logged parse (recommendations_col row))"
  using assms
  by (auto simp: cache_get_def cached_reply_def Let_def irrecoverable_normalizes_empty
      parse_warning_logged_def)

theorem cache_get_garbage_is_empty_hit_witness:
  "irrecoverable (\<lambda>s. None) (JStr ''not json'') \<and>
   (\<exists>reply. cache_get (\<lambda>s. None) 100 ''h1''
     \<lparr> ai_rows = [\<lparr> ai_id = 1, prompt_hash = ''h1'', user_prompt = ''dark thriller'',
                    recommendations_col = JStr ''not json'', ai_created_at = 0,
                    expires_at = Some 86400 \<rparr>],
       ai_next_id = 2 \<rparr> = Some reply \<and> source reply = ''cache'' \<and> recommendations reply = [])
   \<and> parse_warning_logged (\<lambda>s. None) (JStr ''not json'')"
proof -
  let ?row = "\<lparr> ai_id = 1, prompt_hash = ''h1'', user_prompt = ''dark thriller'',
                    recommendations_col = JStr ''not json'', ai_created_at = 0,
                    expires_at = Some 86400 \<rparr>"
  let ?c = "\<lparr> ai_rows = [?row], ai_next_id = 2 \<rparr>"
  have sel: "select_cached 100 ''h1'' ?c = ?row # []"
    by (simp add: select_cached_def live_at_def)
  have irr: "irrecoverable (\<lambda>s. None) (recommendations_col ?row)"
    by (simp add: irrecoverable_def)
  from cache_get_garbage_is_empty_hit [OF sel irr] irr show ?thesis by simp
qed

text \<open>
  C1. \<open>put\<close> should overwrite the row of a hash that is already present. At a cache
  holding an expired row for the hash, the read is a miss, the route generates and
  calls \<open>put\<close>, the INSERT fails on the UNIQUE key, the error is logged, and the table is
  left as it was: the expired row stays and the next read is a miss again. Likewise the
  second of two puts for one hash into a cold cache is rejected, and the row of the
  first remains.
\<close>

theorem cache_put_expired_row_not_replaced:
  "cache_get (\<lambda>s. None) 100000 ''h1''
     \<lparr> ai_rows = [\<lparr> ai_id = 1, prompt_hash = ''h1'', user_prompt = ''dark thriller'',
                    recommendations_col = JObj [(''recommendations'', JArr [])], ai_created_at = 0,
                    expires_at = Some 86400 \<rparr>],
       ai_next_id = 2 \<rparr> = None
   \<and> cache_put 100000 ''h1'' ''dark thriller'' (JObj [(''recommendations'', JArr [JStr ''new''])])
     \<lparr> ai_rows = [\<lparr> ai_id = 1, prompt_hash = ''h1'', user_prompt = ''dark thriller'',
                    recommendations_col = JObj [(''recommendations'', JArr [])], ai_created_at = 0,
                    expires_at = Some 86400 \<rparr>],
       ai_next_id = 2 \<rparr>
   = (\<lparr> ai_rows = [\<lparr> ai_id = 1, prompt_hash = ''h1'', user_prompt = ''dark thriller'',
                    recommendations_col = JObj [(''recommendations'', JArr [])], ai_created_at = 0,
                    expires_at = Some 86400 \<rparr>],
       ai_next_id = 2 \<rparr>, Some ER_DUP_ENTRY)
   \<and> cache_put 7 ''h1'' ''dark thriller'' (JObj [(''recommendations'', JArr [JStr ''second''])])
       (fst (cache_put 5 ''h1'' ''dark thriller'' (JObj [(''recommendations'', JArr [JStr ''first''])])
               \<lparr> ai_rows = [], ai_next_id = 1 \<rparr>))
   = (\<lparr> ai_rows = [\<lparr> ai_id = 1, prompt_hash = ''h1'', user_prompt = ''dark thriller'',
                    recommendations_col = JObj [(''recommendations'', JArr [JStr ''first''])],
                    ai_created_at = 5, expires_at = Some 86405 \<rparr>],
       ai_next_id = 2 \<rparr>, Some ER_DUP_ENTRY)"
  by (simp add: cache_get_def select_cached_def live_at_def cache_put_def insert_ai_row_def)

section \<open>Properties of normalisation and of the movie cache\<close>

lemma js_or_num_null_nonzero: "js_or (JNum n) JNull \<noteq> JNum (Fin 0)"
  by (cases n) (auto simp: js_or_def)

lemma js_or_zero_null: "js_or (JNum (Fin 0)) JNull = JNull"
  by (simp add: js_or_def)

text \<open>
  C10. Where \<open>Year\<close> or \<open>imdbRating\<close> parses to the number 0, \<open>formatMovieData\<close> (both
  copies) stores \<open>null\<close>, because the parse result goes through \<^verbatim>\<open>|| null\<close>; so the stored
  year and rating are never the number 0. This holds whatever \<open>parseInt\<close> and
  \<open>parseFloat\<close> return for the other strings; negative zero is the number zero.
\<close>

theorem formatMovieData_zero_is_null:
  "(parseInt (Year d) = Fin 0 \<longrightarrow>
      year (formatMovieData_movies parseInt parseFloat d) = JNull
      \<and> year (formatMovieData_recommendations parseInt parseFloat d) = JNull)
   \<and> (parseFloat (imdbRating d) = Fin 0 \<longrightarrow>
      imdb_rating (formatMovieData_movies parseInt parseFloat d) = JNull
      \<and> imdb_rating (formatMovieData_recommendations parseInt parseFloat d) = JNull)
   \<and> year (formatMovieData_movies parseInt parseFloat d) \<noteq> JNum (Fin 0)
   \<and> year (formatMovieData_recommendations parseInt parseFloat d) \<noteq> JNum (Fin 0)
   \<and> imdb_rating (formatMovieData_movies parseInt parseFloat d) \<noteq> JNum (Fin 0)
   \<and> imdb_rating (formatMovieData_recommendations parseInt parseFloat d) \<noteq> JNum (Fin 0)"
  by (simp add: formatMovieData_movies_def formatMovieData_recommendations_def
      js_or_num_null_nonzero js_or_zero_null)

text \<open>
  The payload with \<open>Year\<close> \<^verbatim>\<open>0\<close> and \<open>imdbRating\<close> \<^verbatim>\<open>1e-324\<close>, which \<open>parseFloat\<close> rounds to
  0; the two functions are given as they are on these two strings.
\<close>

theorem formatMovieData_zero_is_null_witness:
  "year (formatMovieData_movies
        (\<lambda>x. if x = Some ''0'' then Fin 0 else NaN)
        (\<lambda>x. if x = Some ''1e-324'' then Fin 0 else NaN)
        \<lparr> Response = Some ''True'', imdbID = Some ''tt0000001'', Title = Some ''Zero'',
          Year = Some ''0'', Genre = None, Director = None, Actors = None, Plot = None,
          Poster = Some ''N/A'', imdbRating = Some ''1e-324'', Runtime = None, Language = None,
          Country = None, Rated = None, Released = None, Awards = None, Error = None \<rparr>) = JNull
   \<and> imdb_rating (formatMovieData_recommendations
        (\<lambda>x. if x = Some ''0'' then Fin 0 else NaN)
        (\<lambda>x. if x = Some ''1e-324'' then Fin 0 else NaN)
        \<lparr> Response = Some ''True'', imdbID = Some ''tt0000001'', Title = Some ''Zero'',
          Year = Some ''0'', Genre = None, Director = None, Actors = None, Plot = None,
          Poster = Some ''N/A'', imdbRating = Some ''1e-324'', Runtime = None, Language = None,
          Country = None, Rated = None, Released = None, Awards = None, Error = None \<rparr>) = JNull"
proof -
  let ?d = "\<lparr> Response = Some ''True'', imdbID = Some ''tt0000001'', Title = Some ''Zero'',
          Year = Some ''0'', Genre = None, Director = None, Actors = None, Plot = None,
          Poster = Some ''N/A'', imdbRating = Some ''1e-324'', Runtime = None, Language = None,
          Country = None, Rated = None, Released = None, Awards = None, Error = None \<rparr>"
  let ?pi = "\<lambda>x. if x = Some ''0'' then Fin 0 else NaN"
  let ?pf = "\<lambda>x. if x = Some ''1e-324'' then Fin 0 else NaN"
  have a: "?pi (Year ?d) = Fin 0" by simp
  have b: "?pf (imdbRating ?d) = Fin 0" by simp
  from formatMovieData_zero_is_null [of ?pi ?d ?pf] a b show ?thesis by simp
qed

lemma imdb_id_update_columns [simp]: "imdb_id (update_columns v r) = imdb_id r"
  by (simp add: update_columns_def)

lemma created_at_update_columns [simp]: "created_at (update_columns v r) = created_at r"
  by (simp add: update_columns_def)

lemma written_update_columns [simp]:
  "written_columns (update_columns v r) = written_columns v"
  by (simp add: update_columns_def written_columns_def)

lemma written_new_row [simp]: "written_columns (new_row now n v) = written_columns v"
  by (simp add: new_row_def written_columns_def)







section \<open>Properties of the provider calls and of reconciliation\<close>

lemma fetchOmdb_first_resolved:
  assumes "omdb (requests w) p = Resolved body"
  shows "fetchOmdb omdb p w = (Returned body, w\<lparr> requests := requests w + 1 \<rparr>)"
  using assms by (simp add: fetchOmdb_def)

lemma fetchOmdb_second_resolved:
  assumes "omdb (requests w) p = Rejected e1" and "omdb (requests w + 1) p = Resolved body"
  shows "fetchOmdb omdb p w
         = (Returned body, w\<lparr> requests := requests w + 2, sleeps := sleeps w @ [500] \<rparr>)"
  using assms by (simp add: fetchOmdb_def)

lemma fetchOmdb_third_resolved:
  assumes "omdb (requests w) p = Rejected e1" and "omdb (requests w + 1) p = Rejected e2"
    and "omdb (requests w + 2) p = Resolved body"
  shows "fetchOmdb omdb p w
         = (Returned body, w\<lparr> requests := requests w + 3, sleeps := sleeps w @ [500, 1000] \<rparr>)"
  using assms by (simp add: fetchOmdb_def)

lemma fetchOmdb_all_rejected:
  assumes "omdb (requests w) p = Rejected e1" and "omdb (requests w + 1) p = Rejected e2"
    and "omdb (requests w + 2) p = Rejected e3"
  shows "fetchOmdb omdb p w
         = (Thrown e3, w\<lparr> requests := requests w + 3, sleeps := sleeps w @ [500, 1000] \<rparr>)"
  using assms by (simp add: fetchOmdb_def)

lemma search_fetch_not_found:
  assumes "omdb (requests w) (Search t y pg) = Resolved (Some d)" and "Response d = Some ''False''"
  shows "search_fetch omdb t y pg w
         = (Status404 (js_or (field (Error d)) (JStr ''No movies found'')),
            w\<lparr> requests := requests w + 1 \<rparr>)"
  using assms by (simp add: search_fetch_def fetchOmdb_first_resolved)

lemma resolve_candidate_rejected:
  assumes "\<not> toString_throws (cand_title c)"
    and "db_available env" and "select_by_title env (cand_title c) (movies v) = None"
    and "has_key env"
    and "omdb_api env (requests (network v)) (ByTitle (cand_title c) (cand_year c)) = Rejected e"
  shows "resolve_candidate env now c v
         = (Inr (Details (fetch_failed c)),
            v\<lparr> network := (network v)\<lparr> requests := requests (network v) + 1 \<rparr> \<rparr>)"
  using assms by (simp add: resolve_candidate_def Let_def)

lemma placeholder_basic_info:
  "pl \<in> {''Plot information unavailable'', ''Movie details not available'',
          ''Error fetching movie details''} \<Longrightarrow> placeholder_for c (basic_info c pl err)"
  by (auto simp: placeholder_for_def basic_info_def)

text \<open>
  Where the title converts to a string, an unresolved candidate gets its placeholder
  and the movie cache is left as it was.
\<close>

lemma resolve_unresolved:
  assumes "\<not> toString_throws (cand_title c)" and "unresolved env c w"
  shows "\<exists>p w'. resolve_candidate env now c w = (Inr (Details p), w') \<and> placeholder_for c p
                 \<and> movies w' = movies w"
  using assms
  by (auto simp: unresolved_def resolve_candidate_def Let_def without_key_def not_found_def
      fetch_failed_def placeholder_basic_info split: http_result.splits option.splits)

text \<open>
  C4. An unresolved candidate should get a placeholder, without the call throwing and
  without the other candidates being dropped. The loop body is wrapped in
  \<^verbatim>\<open>try\<close>/\<^verbatim>\<open>catch\<close> to that end, but the \<^verbatim>\<open>catch\<close> converts the title to a string again.
  For the model's answer \<^verbatim>\<open>{"title": {"toString": 1}, "reason": "Classic"}\<close>, with no
  provider key and an empty cache, so that the candidate is unresolved, the call throws
  a TypeError: there is no placeholder for it, and the candidate after it, which alone
  gets its placeholder, is dropped as well.
\<close>

theorem reconciliation_throws_on_title_object:
  "unresolved
     \<lparr> db_available = True, stored_as = (\<lambda>v. Inr v), same_key = (=),
       title_like = (\<lambda>t r. r = t), rating_less = (\<lambda>a b. False),
       OMDB_API_KEY = None, omdb_api = (\<lambda>n p. Rejected ''ECONNREFUSED''),
       js_parseInt = (\<lambda>x. NaN), js_parseFloat = (\<lambda>x. NaN) \<rparr>
     \<lparr> cand_title = JObj [(''toString'', JNum (Fin 1))], cand_year = JUndefined,
       cand_reason = JStr ''Classic'' \<rparr>
     \<lparr> movies = \<lparr> mc_rows = [], mc_next_id = 1 \<rparr>, network = \<lparr> requests = 0, sleeps = [] \<rparr> \<rparr>
   \<and> getMovieDetailsForRecommendations
       \<lparr> db_available = True, stored_as = (\<lambda>v. Inr v), same_key = (=),
         title_like = (\<lambda>t r. r = t), rating_less = (\<lambda>a b. False),
         OMDB_API_KEY = None, omdb_api = (\<lambda>n p. Rejected ''ECONNREFUSED''),
         js_parseInt = (\<lambda>x. NaN), js_parseFloat = (\<lambda>x. NaN) \<rparr> 0
       [\<lparr> cand_title = JObj [(''toString'', JNum (Fin 1))], cand_year = JUndefined,
          cand_reason = JStr ''Classic'' \<rparr>,
        \<lparr> cand_title = JStr ''Arrival'', cand_year = JNum (Fin 2016), cand_reason = JStr ''Quiet'' \<rparr>]
       \<lparr> movies = \<lparr> mc_rows = [], mc_next_id = 1 \<rparr>, network = \<lparr> requests = 0, sleeps = [] \<rparr> \<rparr>
     = (Inl ''Cannot convert object to primitive value'',
        \<lparr> movies = \<lparr> mc_rows = [], mc_next_id = 1 \<rparr>, network = \<lparr> requests = 0, sleeps = [] \<rparr> \<rparr>)
   \<and> getMovieDetailsForRecommendations
       \<lparr> db_available = True, stored_as = (\<lambda>v. Inr v), same_key = (=),
         title_like = (\<lambda>t r. r = t), rating_less = (\<lambda>a b. False),
         OMDB_API_KEY = None, omdb_api = (\<lambda>n p. Rejected ''ECONNREFUSED''),
         js_parseInt = (\<lambda>x. NaN), js_parseFloat = (\<lambda>x. NaN) \<rparr> 0
       [\<lparr> cand_title = JStr ''Arrival'', cand_year = JNum (Fin 2016), cand_reason = JStr ''Quiet'' \<rparr>]
       \<lparr> movies = \<lparr> mc_rows = [], mc_next_id = 1 \<rparr>, network = \<lparr> requests = 0, sleeps = [] \<rparr> \<rparr>
     = (Inr [Details (without_key
               \<lparr> cand_title = JStr ''Arrival'', cand_year = JNum (Fin 2016),
                 cand_reason = JStr ''Quiet'' \<rparr>)],
        \<lparr> movies = \<lparr> mc_rows = [], mc_next_id = 1 \<rparr>, network = \<lparr> requests = 0, sleeps = [] \<rparr> \<rparr>)"
  by (simp add: unresolved_def resolve_candidate_def select_by_title_def has_key_def)

text \<open>The candidate with the title object is unresolved: nothing is cached and no key is set.\<close>

theorem reconciliation_throws_on_title_object_witness:
  "unresolved
     \<lparr> db_available = True, stored_as = (\<lambda>v. Inr v), same_key = (=),
       title_like = (\<lambda>t r. r = t), rating_less = (\<lambda>a b. False),
       OMDB_API_KEY = None, omdb_api = (\<lambda>n p. Rejected ''ECONNREFUSED''),
       js_parseInt = (\<lambda>x. NaN), js_parseFloat = (\<lambda>x. NaN) \<rparr>
     \<lparr> cand_title = JObj [(''toString'', JNum (Fin 1))], cand_year = JUndefined,
       cand_reason = JStr ''Classic'' \<rparr>
     \<lparr> movies = \<lparr> mc_rows = [], mc_next_id = 1 \<rparr>, network = \<lparr> requests = 0, sleeps = [] \<rparr> \<rparr>
   \<and> fst (getMovieDetailsForRecommendations
       \<lparr> db_available = True, stored_as = (\<lambda>v. Inr v), same_key = (=),
         title_like = (\<lambda>t r. r = t), rating_less = (\<lambda>a b. False),
         OMDB_API_KEY = None, omdb_api = (\<lambda>n p. Rejected ''ECONNREFUSED''),
         js_parseInt = (\<lambda>x. NaN), js_parseFloat = (\<lambda>x. NaN) \<rparr> 0
       [\<lparr> cand_title = JObj [(''toString'', JNum (Fin 1))], cand_year = JUndefined,
          cand_reason = JStr ''Classic'' \<rparr>,
        \<lparr> cand_title = JStr ''Arrival'', cand_year = JNum (Fin 2016), cand_reason = JStr ''Quiet'' \<rparr>]
       \<lparr> movies = \<lparr> mc_rows = [], mc_next_id = 1 \<rparr>, network = \<lparr> requests = 0, sleeps = [] \<rparr> \<rparr>)
     = Inl ''Cannot convert object to primitive value''"
  using reconciliation_throws_on_title_object by simp

text \<open>
  C6, as the claim states it: every path that calls the provider would retry. With a
  provider whose first request fails and whose second succeeds, \<open>fetchOmdb\<close> sleeps
  500 ms and returns the body of the second request, while the reconciliation of
  \<^verbatim>\<open>routes/recommendations.js\<close> issues one request and settles for the placeholder.
\<close>

theorem provider_retry_not_uniform_counterexample:
  "fetchOmdb
     (\<lambda>n p. if n = 0 then Rejected ''timeout of 5000ms exceeded''
             else Resolved (Some \<lparr> Response = Some ''True'', imdbID = Some ''tt1375666'',
               Title = Some ''Inception'', Year = Some ''2010'', Genre = None, Director = None,
               Actors = None, Plot = None, Poster = None, imdbRating = Some ''8.8'',
               Runtime = None, Language = None, Country = None, Rated = None, Released = None,
               Awards = None, Error = None \<rparr>))
     (ByTitle (JStr ''Inception'') (JNum (Fin 2010)))
     \<lparr> requests = 0, sleeps = [] \<rparr>
   = (Returned (Some \<lparr> Response = Some ''True'', imdbID = Some ''tt1375666'',
               Title = Some ''Inception'', Year = Some ''2010'', Genre = None, Director = None,
               Actors = None, Plot = None, Poster = None, imdbRating = Some ''8.8'',
               Runtime = None, Language = None, Country = None, Rated = None, Released = None,
               Awards = None, Error = None \<rparr>),
      \<lparr> requests = 2, sleeps = [500] \<rparr>)
   \<and> getMovieDetailsForRecommendations
       \<lparr> db_available = True, stored_as = (\<lambda>v. Inr v), same_key = (=),
         title_like = (\<lambda>t r. r = t), rating_less = (\<lambda>a b. False),
         OMDB_API_KEY = Some ''key'',
         omdb_api = (\<lambda>n p. if n = 0 then Rejected ''timeout of 5000ms exceeded''
             else Resolved (Some \<lparr> Response = Some ''True'', imdbID = Some ''tt1375666'',
               Title = Some ''Inception'', Year = Some ''2010'', Genre = None, Director = None,
               Actors = None, Plot = None, Poster = None, imdbRating = Some ''8.8'',
               Runtime = None, Language = None, Country = None, Rated = None, Released = None,
               Awards = None, Error = None \<rparr>)),
         js_parseInt = (\<lambda>x. NaN), js_parseFloat = (\<lambda>x. NaN) \<rparr> 0
       [\<lparr> cand_title = JStr ''Inception'', cand_year = JNum (Fin 2010), cand_reason = JStr ''Mind-bending'' \<rparr>]
       \<lparr> movies = \<lparr> mc_rows = [], mc_next_id = 1 \<rparr>, network = \<lparr> requests = 0, sleeps = [] \<rparr> \<rparr>
     = (Inr [Details (fetch_failed
           \<lparr> cand_title = JStr ''Inception'', cand_year = JNum (Fin 2010), cand_reason = JStr ''Mind-bending'' \<rparr>)],
        \<lparr> movies = \<lparr> mc_rows = [], mc_next_id = 1 \<rparr>, network = \<lparr> requests = 1, sleeps = [] \<rparr> \<rparr>)"
  by (simp add: fetchOmdb_def resolve_candidate_def select_by_title_def has_key_def)

text \<open>
  C6, amended. \<open>fetchOmdb\<close>, the helper of \<^verbatim>\<open>routes/movies.js\<close>, makes at most three
  requests: a resolved request is returned at once, whatever its body says, with no
  sleep after it; a rejected first or second request is followed by a sleep of 500 ms
  times its number and another request; the third rejection is thrown. A \<open>not found\<close>
  body makes the search route answer 404 after its one request. The reconciliation of
  \<^verbatim>\<open>routes/recommendations.js\<close> does not retry: for a candidate whose title converts
  to a string, after one rejected request it pushes the \<open>Fetch failed\<close> placeholder.
\<close>

theorem fetchOmdb_retry_discipline:
  "(provider (requests w) p = Resolved body \<longrightarrow>
      fetchOmdb provider p w = (Returned body, w\<lparr> requests := requests w + 1 \<rparr>))
   \<and> (provider (requests w) p = Rejected e1 \<and> provider (requests w + 1) p = Resolved body \<longrightarrow>
      fetchOmdb provider p w
        = (Returned body, w\<lparr> requests := requests w + 2, sleeps := sleeps w @ [500] \<rparr>))
   \<and> (provider (requests w) p = Rejected e1 \<and> provider (requests w + 1) p = Rejected e2
        \<and> provider (requests w + 2) p = Resolved body \<longrightarrow>
      fetchOmdb provider p w
        = (Returned body, w\<lparr> requests := requests w + 3, sleeps := sleeps w @ [500, 1000] \<rparr>))
   \<and> (provider (requests w) p = Rejected e1 \<and> provider (requests w + 1) p = Rejected e2
        \<and> provider (requests w + 2) p = Rejected e3 \<longrightarrow>
      fetchOmdb provider p w
        = (Thrown e3, w\<lparr> requests := requests w + 3, sleeps := sleeps w @ [500, 1000] \<rparr>))
   \<and> (provider (requests w) (Search t y pg) = Resolved (Some d) \<and> Response d = Some ''False'' \<longrightarrow>
      search_fetch provider t y pg w
        = (Status404 (js_or (field (Error d)) (JStr ''No movies found'')),
           w\<lparr> requests := requests w + 1 \<rparr>))
   \<and> (\<not> toString_throws (cand_title c)
        \<and> db_available env \<and> select_by_title env (cand_title c) (movies v) = None \<and> has_key env
        \<and> omdb_api env (requests (network v)) (ByTitle (cand_title c) (cand_year c)) = Rejected e
        \<longrightarrow>
      resolve_candidate env now c v
        = (Inr (Details (fetch_failed c)),
           v\<lparr> network := (network v)\<lparr> requests := requests (network v) + 1 \<rparr> \<rparr>))"
  using fetchOmdb_first_resolved [of provider w p body]
    fetchOmdb_second_resolved [of provider w p e1 body]
    fetchOmdb_third_resolved [of provider w p e1 e2 body]
    fetchOmdb_all_rejected [of provider w p e1 e2 e3]
    search_fetch_not_found [of provider w t y pg d]
    resolve_candidate_rejected [of c env v e now]
  by blast

theorem fetchOmdb_retry_discipline_witness:
  "fetchOmdb (\<lambda>n p. Resolved None) (ById (JStr ''tt1375666'')) \<lparr> requests = 0, sleeps = [] \<rparr>
     = (Returned None, \<lparr> requests = 1, sleeps = [] \<rparr>)
   \<and> fetchOmdb (\<lambda>n p. if n < 1 then Rejected ''ETIMEDOUT'' else Resolved None)
       (ById (JStr ''tt1375666'')) \<lparr> requests = 0, sleeps = [] \<rparr>
     = (Returned None, \<lparr> requests = 2, sleeps = [500] \<rparr>)
   \<and> fetchOmdb (\<lambda>n p. if n < 2 then Rejected ''ETIMEDOUT'' else Resolved None)
       (ById (JStr ''tt1375666'')) \<lparr> requests = 0, sleeps = [] \<rparr>
     = (Returned None, \<lparr> requests = 3, sleeps = [500, 1000] \<rparr>)
   \<and> fetchOmdb (\<lambda>n p. Rejected ''ETIMEDOUT'')
       (ById (JStr ''tt1375666'')) \<lparr> requests = 0, sleeps = [] \<rparr>
     = (Thrown ''ETIMEDOUT'', \<lparr> requests = 3, sleeps = [500, 1000] \<rparr>)
   \<and> search_fetch
       (\<lambda>n p. Resolved (Some \<lparr> Response = Some ''False'', imdbID = None, Title = None,
          Year = None, Genre = None, Director = None, Actors = None, Plot = None, Poster = None,
          imdbRating = None, Runtime = None, Language = None, Country = None, Rated = None,
          Released = None, Awards = None, Error = Some ''Movie not found!'' \<rparr>))
       (JStr ''zzzz'') JUndefined (JNum (Fin 1)) \<lparr> requests = 0, sleeps = [] \<rparr>
     = (Status404 (JStr ''Movie not found!''), \<lparr> requests = 1, sleeps = [] \<rparr>)
   \<and> resolve_candidate
       \<lparr> db_available = True, stored_as = (\<lambda>v. Inr v), same_key = (=),
         title_like = (\<lambda>t r. r = t), rating_less = (\<lambda>a b. False),
         OMDB_API_KEY = Some ''key'', omdb_api = (\<lambda>n p. Rejected ''ETIMEDOUT''),
         js_parseInt = (\<lambda>x. NaN), js_parseFloat = (\<lambda>x. NaN) \<rparr> 0
       \<lparr> cand_title = JStr ''Inception'', cand_year = JNum (Fin 2010), cand_reason = JStr ''Mind-bending'' \<rparr>
       \<lparr> movies = \<lparr> mc_rows = [], mc_next_id = 1 \<rparr>, network = \<lparr> requests = 0, sleeps = [] \<rparr> \<rparr>
     = (Inr (Details (fetch_failed
          \<lparr> cand_title = JStr ''Inception'', cand_year = JNum (Fin 2010), cand_reason = JStr ''Mind-bending'' \<rparr>)),
        \<lparr> movies = \<lparr> mc_rows = [], mc_next_id = 1 \<rparr>, network = \<lparr> requests = 1, sleeps = [] \<rparr> \<rparr>)"
proof -
  let ?w = "\<lparr> requests = 0, sleeps = [] \<rparr>"
  let ?p = "ById (JStr ''tt1375666'')"
  let ?nf = "\<lparr> Response = Some ''False'', imdbID = None, Title = None,
          Year = None, Genre = None, Director = None, Actors = None, Plot = None, Poster = None,
          imdbRating = None, Runtime = None, Language = None, Country = None, Rated = None,
          Released = None, Awards = None, Error = Some ''Movie not found!'' \<rparr>"
  let ?env = "\<lparr> db_available = True, stored_as = (\<lambda>v. Inr v), same_key = (=),
         title_like = (\<lambda>t r. r = t), rating_less = (\<lambda>a b. False),
         OMDB_API_KEY = Some ''key'', omdb_api = (\<lambda>n p. Rejected ''ETIMEDOUT''),
         js_parseInt = (\<lambda>x. NaN), js_parseFloat = (\<lambda>x. NaN) \<rparr>"
  let ?c = "\<lparr> cand_title = JStr ''Inception'', cand_year = JNum (Fin 2010),
               cand_reason = JStr ''Mind-bending'' \<rparr>"
  let ?v = "\<lparr> movies = \<lparr> mc_rows = [], mc_next_id = 1 \<rparr>, network = ?w \<rparr>"
  have a: "fetchOmdb (\<lambda>n p. Resolved None) ?p ?w = (Returned None, \<lparr> requests = 1, sleeps = [] \<rparr>)"
    using fetchOmdb_retry_discipline
      [where provider = "\<lambda>n p. Resolved None" and w = ?w and p = ?p and body = None]
    by simp
  have b: "fetchOmdb (\<lambda>n p. if n < 1 then Rejected ''ETIMEDOUT'' else Resolved None) ?p ?w
           = (Returned None, \<lparr> requests = 2, sleeps = [500] \<rparr>)"
    using fetchOmdb_retry_discipline
      [where provider = "\<lambda>n p. if n < 1 then Rejected ''ETIMEDOUT'' else Resolved None"
         and w = ?w and p = ?p and body = None and ?e1.0 = "''ETIMEDOUT''"]
    by simp
  have c: "fetchOmdb (\<lambda>n p. if n < 2 then Rejected ''ETIMEDOUT'' else Resolved None) ?p ?w
           = (Returned None, \<lparr> requests = 3, sleeps = [500, 1000] \<rparr>)"
    using fetchOmdb_retry_discipline
      [where provider = "\<lambda>n p. if n < 2 then Rejected ''ETIMEDOUT'' else Resolved None"
         and w = ?w and p = ?p and body = None and ?e1.0 = "''ETIMEDOUT''"
         and ?e2.0 = "''ETIMEDOUT''"]
    by simp
  have d: "fetchOmdb (\<lambda>n p. Rejected ''ETIMEDOUT'') ?p ?w
           = (Thrown ''ETIMEDOUT'', \<lparr> requests = 3, sleeps = [500, 1000] \<rparr>)"
    using fetchOmdb_retry_discipline
      [where provider = "\<lambda>n p. Rejected ''ETIMEDOUT''"
         and w = ?w and p = ?p and ?e1.0 = "''ETIMEDOUT''"
         and ?e2.0 = "''ETIMEDOUT''" and ?e3.0 = "''ETIMEDOUT''"]
    by simp
  have e: "search_fetch (\<lambda>n p. Resolved (Some ?nf)) (JStr ''zzzz'') JUndefined (JNum (Fin 1)) ?w
           = (Status404 (JStr ''Movie not found!''), \<lparr> requests = 1, sleeps = [] \<rparr>)"
    using fetchOmdb_retry_discipline
      [where provider = "\<lambda>n p. Resolved (Some ?nf)" and w = ?w and t = "JStr ''zzzz''"
         and y = JUndefined and pg = "JNum (Fin 1)" and d = ?nf]
    by (simp add: js_or_def field_def)
  have f: "resolve_candidate ?env 0 ?c ?v
           = (Inr (Details (fetch_failed ?c)),
              \<lparr> movies = \<lparr> mc_rows = [], mc_next_id = 1 \<rparr>,
                network = \<lparr> requests = 1, sleeps = [] \<rparr> \<rparr>)"
    using fetchOmdb_retry_discipline
      [where env = ?env and c = ?c and v = ?v and e = "''ETIMEDOUT''" and now = 0]
    by (simp add: select_by_title_def has_key_def)
  from a b c d e f show ?thesis by blast
qed

section \<open>Properties of the title extractor and of the language-model call\<close>

lemma picks_quoted:
  \<open>rx_matchAll ([One (\<lambda>c. c = CHR 0x22), Open, Plus (\<lambda>c. c \<noteq> CHR 0x22), Close,
                  One (\<lambda>c. c = CHR 0x22)], False)
     ''Here are some picks: "Inception" (2010), "Arrival" (2016)''
   = [(21, 32, ''Inception''), (41, 50, ''Arrival'')]\<close>
  by code_simp

lemma picks_numbered:
  \<open>rx_matchAll ([Plus is_digit, One (\<lambda>c. c = CHR ''.''), Star is_space, Open, Plus not_newline,
                  Close], False)
     ''Here are some picks: "Inception" (2010), "Arrival" (2016)'' = []\<close>
  by code_simp

lemma picks_bulleted:
  \<open>rx_matchAll ([One (\<lambda>c. c = CHR ''-'' \<or> c = CHR ''*''), Star is_space, Open, Plus not_newline,
                  Close], False)
     ''Here are some picks: "Inception" (2010), "Arrival" (2016)'' = []\<close>
  by code_simp

lemma picks_title_prefix:
  \<open>rx_matchAll ([Lit ''Title:'', Star is_space, Open, Plus not_newline, Close], True)
     ''Here are some picks: "Inception" (2010), "Arrival" (2016)'' = []\<close>
  by code_simp

lemma picks_movie_prefix:
  \<open>rx_matchAll ([Lit ''Movie:'', Star is_space, Open, Plus not_newline, Close], True)
     ''Here are some picks: "Inception" (2010), "Arrival" (2016)'' = []\<close>
  by code_simp

lemma picks_title_year:
  \<open>rx_matchAll ([Open, WordBoundary, One is_AZ, Plus (\<lambda>c. is_az c \<or> is_AZ c \<or> is_space c),
                  One (\<lambda>c. c = CHR ''(''), Times 4 is_digit, One (\<lambda>c. c = CHR '')''), Close], False)
     ''Here are some picks: "Inception" (2010), "Arrival" (2016)'' = []\<close>
  by code_simp

lemma clean_Inception: "clean_title ''Inception'' = ''Inception''"
  by code_simp

lemma clean_Arrival: "clean_title ''Arrival'' = ''Arrival''"
  by code_simp

lemma picks_scan:
  \<open>scan_patterns patterns ''Here are some picks: "Inception" (2010), "Arrival" (2016)'' []
   = [''Inception'', ''Arrival'']\<close>
  by (simp add: patterns_def titles_of_pattern_def push_title_def picks_quoted picks_numbered
      picks_bulleted picks_title_prefix picks_movie_prefix picks_title_year
      clean_Inception clean_Arrival)

text \<open>
  C9. On the text \<^verbatim>\<open>Here are some picks: "Inception" (2010), "Arrival" (2016)\<close> the
  extractor returns the two quoted titles, without the years. The patterns give these
  two titles, so the list is not empty and the fallback to the first lines is not taken.
\<close>

theorem extract_picks:
  \<open>extractMovieTitlesFromText ''Here are some picks: "Inception" (2010), "Arrival" (2016)''
     = [''Inception'', ''Arrival'']
   \<and> scan_patterns patterns ''Here are some picks: "Inception" (2010), "Arrival" (2016)'' []
     = [''Inception'', ''Arrival'']\<close>
  by (simp add: extractMovieTitlesFromText_def picks_scan)

lemma validate_accepted:
  "(\<exists>r. validate_response v = Inr r) \<longleftrightarrow> accepted_response v"
  by (cases "get_prop v ''movies''")
     (auto simp: validate_response_def accepted_response_def)

lemma fallback_accepted:
  "ts \<noteq> [] \<Longrightarrow> accepted_response (fallback_response ts)"
  by (auto simp: accepted_response_def fallback_response_def is_nullish_def)

lemma interpret_content_fails_iff:
  "(\<exists>msg. interpret_content parse aiContent = Inl msg) \<longleftrightarrow>
     (parse aiContent = None \<and> extractMovieTitlesFromText aiContent = [])
     \<or> (\<exists>v. parse aiContent = Some v \<and> \<not> accepted_response v)"
proof (cases "parse aiContent")
  case None
  show ?thesis
  proof (cases "extractMovieTitlesFromText aiContent = []")
    case True
    with None show ?thesis
      by (simp add: interpret_content_def parse_or_extract_def)
  next
    case False
    from fallback_accepted [OF False] validate_accepted
    obtain r where "validate_response (fallback_response (extractMovieTitlesFromText aiContent)) = Inr r"
      by blast
    with None False show ?thesis
      by (simp add: interpret_content_def parse_or_extract_def)
  qed
next
  case (Some v)
  have "(\<exists>msg. validate_response v = Inl msg) \<longleftrightarrow> \<not> accepted_response v"
    using validate_accepted [of v] by (cases "validate_response v") auto
  with Some show ?thesis
    by (simp add: interpret_content_def parse_or_extract_def)
qed

text \<open>
  C3, amended. When the provider returns a completion, the call fails exactly when
  \<open>JSON.parse\<close> throws and the fallback extraction yields no title, or \<open>JSON.parse\<close>
  succeeds and the value is not an accepted response (it is \<open>null\<close>, or its \<open>movies\<close> is
  missing, not an array, empty, or holds a \<open>null\<close>); the fallback is not consulted in
  the second case. In particular, when the parse throws and the fallback yields a
  title, or the parse yields an accepted response, the call succeeds.
\<close>

theorem generateAIRecommendations_fails_iff:
  assumes "GROQ_API_KEY env = Some k" and "k \<noteq> []"
    and "groq_post env prompt = Content aiContent"
  shows "(\<exists>e d. generateAIRecommendations env parse prompt = AiFailure e d) \<longleftrightarrow>
     (parse aiContent = None \<and> extractMovieTitlesFromText aiContent = [])
     \<or> (\<exists>v. parse aiContent = Some v \<and> \<not> accepted_response v)"
proof -
  have "(\<exists>e d. generateAIRecommendations env parse prompt = AiFailure e d)
        \<longleftrightarrow> (\<exists>msg. interpret_content parse aiContent = Inl msg)"
    using assms
    by (cases "interpret_content parse aiContent")
       (auto simp: generateAIRecommendations_def report_error_def)
  then show ?thesis by (simp only: interpret_content_fails_iff)
qed

theorem generateAIRecommendations_fails_iff_witness:
  \<open>GROQ_API_KEY \<lparr> GROQ_API_KEY = Some ''key'',
        groq_post = (\<lambda>p. Content ''Here are some picks: "Inception" (2010), "Arrival" (2016)'') \<rparr>
     = Some ''key''
   \<and> \<not> (\<exists>e d. generateAIRecommendations
         \<lparr> GROQ_API_KEY = Some ''key'',
           groq_post = (\<lambda>p. Content ''Here are some picks: "Inception" (2010), "Arrival" (2016)'') \<rparr>
         (\<lambda>s. None) ''dark thriller'' = AiFailure e d)\<close>
proof -
  let ?t = \<open>''Here are some picks: "Inception" (2010), "Arrival" (2016)''\<close>
  let ?env = "\<lparr> GROQ_API_KEY = Some ''key'', groq_post = (\<lambda>p. Content ?t) \<rparr>"
  have h: "GROQ_API_KEY ?env = Some ''key''" "''key'' \<noteq> []"
    "groq_post ?env ''dark thriller'' = Content ?t"
    by simp_all
  have x: "extractMovieTitlesFromText ?t \<noteq> []"
    by (simp add: extractMovieTitlesFromText_def picks_scan)
  from generateAIRecommendations_fails_iff [OF h, of "\<lambda>s. None"] x h(1)
  show ?thesis by simp
qed

lemma wrong_key_quoted:
  \<open>rx_matchAll ([One (\<lambda>c. c = CHR 0x22), Open, Plus (\<lambda>c. c \<noteq> CHR 0x22), Close,
                  One (\<lambda>c. c = CHR 0x22)], False)
     ''{"picks":["Heat"]}'' = [(1, 8, ''picks''), (10, 16, ''Heat'')]\<close>
  by code_simp

lemma wrong_key_numbered:
  \<open>rx_matchAll ([Plus is_digit, One (\<lambda>c. c = CHR ''.''), Star is_space, Open, Plus not_newline,
                  Close], False)
     ''{"picks":["Heat"]}'' = []\<close>
  by code_simp

lemma wrong_key_bulleted:
  \<open>rx_matchAll ([One (\<lambda>c. c = CHR ''-'' \<or> c = CHR ''*''), Star is_space, Open, Plus not_newline,
                  Close], False)
     ''{"picks":["Heat"]}'' = []\<close>
  by code_simp

lemma wrong_key_title_prefix:
  \<open>rx_matchAll ([Lit ''Title:'', Star is_space, Open, Plus not_newline, Close], True)
     ''{"picks":["Heat"]}'' = []\<close>
  by code_simp

lemma wrong_key_movie_prefix:
  \<open>rx_matchAll ([Lit ''Movie:'', Star is_space, Open, Plus not_newline, Close], True)
     ''{"picks":["Heat"]}'' = []\<close>
  by code_simp

lemma wrong_key_title_year:
  \<open>rx_matchAll ([Open, WordBoundary, One is_AZ, Plus (\<lambda>c. is_az c \<or> is_AZ c \<or> is_space c),
                  One (\<lambda>c. c = CHR ''(''), Times 4 is_digit, One (\<lambda>c. c = CHR '')''), Close], False)
     ''{"picks":["Heat"]}'' = []\<close>
  by code_simp

lemma clean_picks: "clean_title ''picks'' = ''picks''"
  by code_simp

lemma clean_Heat: "clean_title ''Heat'' = ''Heat''"
  by code_simp

lemma wrong_key_extract:
  \<open>extractMovieTitlesFromText ''{"picks":["Heat"]}'' = [''picks'', ''Heat'']\<close>
  by (simp add: extractMovieTitlesFromText_def patterns_def titles_of_pattern_def push_title_def
      wrong_key_quoted wrong_key_numbered wrong_key_bulleted wrong_key_title_prefix
      wrong_key_movie_prefix wrong_key_title_year clean_picks clean_Heat)

text \<open>
  C3, as the claim states it: a failure would need both the strict parse to fail and
  the fallback to find nothing. The completion \<^verbatim>\<open>{"picks":["Heat"]}\<close> is valid JSON, and the
  fallback extractor finds two candidates in it; the call fails all the same, because
  the parsed object has no \<open>movies\<close> array and the fallback is not tried.
\<close>

theorem malformed_only_if_both_fail_counterexample:
  \<open>generateAIRecommendations
     \<lparr> GROQ_API_KEY = Some ''key'', groq_post = (\<lambda>p. Content ''{"picks":["Heat"]}'') \<rparr>
     (\<lambda>s. if s = ''{"picks":["Heat"]}'' then Some (JObj [(''picks'', JArr [JStr ''Heat''])]) else None)
     ''dark thriller''
   = AiFailure ''Error generating AI recommendations'' (JStr ''Invalid response format from AI'')
   \<and> extractMovieTitlesFromText ''{"picks":["Heat"]}'' = [''picks'', ''Heat'']\<close>
  by (simp add: generateAIRecommendations_def interpret_content_def parse_or_extract_def
      validate_response_def is_nullish_def report_error_def wrong_key_extract)

end
